theory Spec2Isabelle
  imports Main "HOL-Library.Word"
begin

section \<open>The rendering surface: a tree of nodes addressed by paths\<close>

text \<open>
  The renderer of \<^verbatim>\<open>extensions/notebook-renderers/src/index.ts\<close> mutates a DOM tree that
  the host owns. The tree is a value here: an element has a tag name, its attributes, its
  class list, its inline style declarations and its children; a text node has its data.
  A reference to a node (\<^verbatim>\<open>container\<close>, \<^verbatim>\<open>outputElement\<close>) is the path of child indices
  from the root of the tree that holds the surface. The root has no parent. Tag names are
  held in lower case, as \<^verbatim>\<open>getElementsByTagName('script')\<close> matches them.

  A JavaScript reference always leads to its object; a path may lead nowhere, and then
  \<open>node_at\<close> is \<open>None\<close> and \<open>update_at\<close> changes nothing. The properties below that speak of
  the content of a surface assume that its path leads to an element.
\<close>

type_synonym byte = "8 word"

datatype node =
    Text (text_data: string)
  | Element (tagName: string) (attributes: "(string \<times> string) list") (classList: "string list")
            (style_decls: "(string \<times> string) list") (childNodes: "node list")

type_synonym path = "nat list"

fun node_at :: "node \<Rightarrow> path \<Rightarrow> node option" where
  "node_at n [] = Some n"
| "node_at (Text d) (i # p) = None"
| "node_at (Element t a c st ks) (i # p) = (if i < length ks then node_at (ks ! i) p else None)"

fun update_at :: "(node \<Rightarrow> node) \<Rightarrow> path \<Rightarrow> node \<Rightarrow> node" where
  "update_at f [] n = f n"
| "update_at f (i # p) (Text d) = Text d"
| "update_at f (i # p) (Element t a c st ks) =
     (if i < length ks then Element t a c st (ks[i := update_at f p (ks ! i)])
      else Element t a c st ks)"

text \<open>
  A JavaScript \<^verbatim>\<open>Map\<close> and an element's attribute list keep insertion order; setting a key
  that is there replaces its value in place, setting a new key appends.
\<close>

fun map_set :: "'k \<Rightarrow> 'v \<Rightarrow> ('k \<times> 'v) list \<Rightarrow> ('k \<times> 'v) list" where
  "map_set k v [] = [(k, v)]"
| "map_set k v ((k', v') # kvs) = (if k' = k then (k, v) # kvs else (k', v') # map_set k v kvs)"

definition map_get :: "('k \<times> 'v) list \<Rightarrow> 'k \<Rightarrow> 'v option" where
  "map_get kvs k = map_of kvs k"

subsection \<open>Element operations\<close>

text \<open>
  The source calls these on values typed \<^verbatim>\<open>HTMLElement\<close>; on a text node the setters below
  leave the node as it is. Attribute names of an HTML element are matched in ASCII lower case
  (\<^verbatim>\<open>getAttribute\<close>, \<^verbatim>\<open>setAttribute\<close>).
\<close>

definition createElement :: "string \<Rightarrow> node" where
  "createElement t = Element t [] [] [] []"

definition lower_char :: "char \<Rightarrow> char" where
  "lower_char c =
     (case map_of (zip ''ABCDEFGHIJKLMNOPQRSTUVWXYZ'' ''abcdefghijklmnopqrstuvwxyz'') c of
        Some l \<Rightarrow> l
      | None \<Rightarrow> c)"

definition ascii_lower :: "string \<Rightarrow> string" where
  "ascii_lower s = map lower_char s"

fun getAttribute :: "string \<Rightarrow> node \<Rightarrow> string option" where
  "getAttribute k (Text d) = None"
| "getAttribute k (Element t a c st ks) = map_get a (ascii_lower k)"

fun setAttribute :: "string \<Rightarrow> string \<Rightarrow> node \<Rightarrow> node" where
  "setAttribute k v (Text d) = Text d"
| "setAttribute k v (Element t a c st ks) = Element t (map_set (ascii_lower k) v a) c st ks"

fun classList_add :: "string \<Rightarrow> node \<Rightarrow> node" where
  "classList_add cl (Text d) = Text d"
| "classList_add cl (Element t a c st ks) =
     Element t a (if cl \<in> set c then c else c @ [cl]) st ks"

fun style_set :: "string \<Rightarrow> string \<Rightarrow> node \<Rightarrow> node" where
  "style_set k v (Text d) = Text d"
| "style_set k v (Element t a c st ks) = Element t a c (map_set k v st) ks"

fun append_child :: "node \<Rightarrow> node \<Rightarrow> node" where
  "append_child child (Text d) = Text d"
| "append_child child (Element t a c st ks) = Element t a c st (ks @ [child])"

fun remove_child :: "nat \<Rightarrow> node \<Rightarrow> node" where
  "remove_child i (Text d) = Text d"
| "remove_child i (Element t a c st ks) = Element t a c st (take i ks @ drop (Suc i) ks)"

fun set_childNodes :: "node list \<Rightarrow> node \<Rightarrow> node" where
  "set_childNodes new (Text d) = Text d"
| "set_childNodes new (Element t a c st ks) = Element t a c st new"

text \<open>
  The text content of a node: the data of its text descendants, in document order. It is
  what a script element created by the renderer holds as its \<^verbatim>\<open>text\<close>.
\<close>

fun textContent :: "node \<Rightarrow> string" where
  "textContent (Text d) = d"
| "textContent (Element t a c st ks) = concat (map textContent ks)"

text \<open>\<^verbatim>\<open>scriptTag.text = s\<close>: the children are replaced by one text node, none for the empty string.\<close>

definition set_text :: "string \<Rightarrow> node \<Rightarrow> node" where
  "set_text s n = set_childNodes (if s = [] then [] else [Text s]) n"

text \<open>
  \<^verbatim>\<open>header.innerText = s\<close>: the children are replaced by the rendered text fragment of \<open>s\<close>,
  a text node for each run without a line break and a \<^verbatim>\<open>br\<close> element for each line break
  (LF, CR, or CR LF).
\<close>

fun rendered_text_fragment :: "string \<Rightarrow> string \<Rightarrow> node list" where
  "rendered_text_fragment acc [] = (if acc = [] then [] else [Text acc])"
| "rendered_text_fragment acc (c # cs) =
     (if c = CHR 0x0D \<and> cs \<noteq> [] \<and> hd cs = CHR 0x0A then
        (if acc = [] then [] else [Text acc]) @ createElement ''br'' # rendered_text_fragment [] (tl cs)
      else if c = CHR 0x0A \<or> c = CHR 0x0D then
        (if acc = [] then [] else [Text acc]) @ createElement ''br'' # rendered_text_fragment [] cs
      else rendered_text_fragment (acc @ [c]) cs)"

definition set_innerText :: "string \<Rightarrow> node \<Rightarrow> node" where
  "set_innerText s n = set_childNodes (rendered_text_fragment [] s) n"

text \<open>
  \<^verbatim>\<open>container.getElementsByTagName(tag)\<close>: the descendant elements with that tag, in
  document order, each as its path from the container; the container itself is not among
  them. \<open>elements_from tag i ks\<close> are those in the children \<open>ks\<close>, the first of which is
  child number \<open>i\<close>.
\<close>

fun getElementsByTagName :: "string \<Rightarrow> node \<Rightarrow> path list"
  and elements_from :: "string \<Rightarrow> nat \<Rightarrow> node list \<Rightarrow> path list" where
  "getElementsByTagName tag (Text d) = []"
| "getElementsByTagName tag (Element t a c st ks) = elements_from tag 0 ks"
| "elements_from tag i [] = []"
| "elements_from tag i (k # ks) =
     (case k of Text d \<Rightarrow> [] | Element t a c st ks' \<Rightarrow> if t = tag then [[i]] else [])
       @ map ((#) i) (getElementsByTagName tag k)
       @ elements_from tag (Suc i) ks"

subsection \<open>Navigation\<close>

definition parentElement :: "path \<Rightarrow> path option" where
  "parentElement p = (if p = [] then None else Some (butlast p))"

definition previousSibling :: "path \<Rightarrow> path option" where
  "previousSibling p =
     (if p = [] then None
      else if last p = 0 then None
      else Some (butlast p @ [last p - 1]))"

definition firstChild :: "node \<Rightarrow> path \<Rightarrow> path option" where
  "firstChild doc p =
     (case node_at doc p of
        Some (Element t a c st (k # ks)) \<Rightarrow> Some (p @ [0])
      | _ \<Rightarrow> None)"

definition num_children :: "node \<Rightarrow> path \<Rightarrow> nat" where
  "num_children doc p =
     (case node_at doc p of Some (Element t a c st ks) \<Rightarrow> length ks | _ \<Rightarrow> 0)"

section \<open>The host, the payload and the state the renderer works on\<close>

datatype jsvalue = Undefined | Null | Boolean bool | String string

fun truthy :: "jsvalue \<Rightarrow> bool" where
  "truthy Undefined = False"
| "truthy Null = False"
| "truthy (Boolean b) = b"
| "truthy (String s) = (s \<noteq> [])"

fun to_string :: "jsvalue \<Rightarrow> string" where
  "to_string Undefined = ''undefined''"
| "to_string Null = ''null''"
| "to_string (Boolean b) = (if b then ''true'' else ''false'')"
| "to_string (String s) = s"

text \<open>
  \<^verbatim>\<open>type ErrorLike = Partial<Error>\<close>: what the source casts the decoded JSON to. Every field
  is a string or absent; a decoded record with a field that is not a string is outside this
  type. \<^verbatim>\<open>JSON.parse\<close> throws a SyntaxError, or returns \<^verbatim>\<open>null\<close>, on which the cast does
  not fail but reading a field does, or returns a value whose fields can be read.
\<close>

record ErrorLike =
  name :: "string option"
  message :: "string option"
  stack :: "string option"

datatype parsed = ParseError | ParsedNull | Parsed ErrorLike

record OutputItem =
  id_of :: string
  mime :: string
  data_of :: "byte list"
  text_of :: string

text \<open>
  What the module imports or finds in the browser, taken as parameters:
  \<^item> \<open>trustedTypes\<close>: whether \<^verbatim>\<open>window.trustedTypes\<close> exists;
  \<^item> \<open>JSON_parse\<close>: \<^verbatim>\<open>JSON.parse\<close> followed by the cast to \<^verbatim>\<open>ErrorLike\<close>;
  \<^item> \<open>parse_fragment\<close>: the HTML parser behind \<^verbatim>\<open>element.innerHTML = s\<close>;
  \<^item> \<open>innerText\<close>, \<open>script_property\<close> and \<open>html_namespace\<close>: the reads \<^verbatim>\<open>node.innerText\<close> and
    \<^verbatim>\<open>node[key]\<close> on the script element at a path of a tree, and whether that element is in
    the HTML namespace. They depend on more than the node as a value: \<^verbatim>\<open>innerText\<close> is the
    text content of an HTML script element that is not rendered, its rendered text when a
    style sheet displays it, and \<^verbatim>\<open>undefined\<close> on a script element in SVG markup, which has
    no such property;
  \<^item> \<open>handleANSIOutput\<close> of \<^verbatim>\<open>./ansi\<close> and \<open>truncatedArrayOfString\<close> of \<^verbatim>\<open>./textHelper\<close>, the
    latter from the target element before the call to the target element after it;
  \<^item> \<open>objectURL\<close>: the string \<^verbatim>\<open>URL.createObjectURL\<close> returns at its n-th call.
\<close>

record host =
  trustedTypes :: bool
  JSON_parse :: "string \<Rightarrow> parsed"
  parse_fragment :: "string \<Rightarrow> node list"
  innerText :: "node \<Rightarrow> path \<Rightarrow> jsvalue"
  script_property :: "node \<Rightarrow> path \<Rightarrow> string \<Rightarrow> jsvalue"
  html_namespace :: "node \<Rightarrow> path \<Rightarrow> bool"
  handleANSIOutput :: "string \<Rightarrow> node"
  truncatedArrayOfString :: "string list \<Rightarrow> nat \<Rightarrow> node \<Rightarrow> node"
  objectURL :: "nat \<Rightarrow> string"

record blob =
  blob_parts :: "byte list list"
  blob_type :: string

text \<open>
  The only \<^verbatim>\<open>IDisposable\<close> the module builds is the closure of \<^verbatim>\<open>renderImage\<close>, which
  revokes the object URL it captured; \<open>Disposable n\<close> is the one that captured the n-th URL.
\<close>

datatype disposable = Disposable (captured: nat)

datatype exn = SyntaxError | TypeError

text \<open>
  The state: the tree that holds the surface, \<^verbatim>\<open>ctx.workspace.isTrusted\<close>, what was written
  with \<^verbatim>\<open>console.log\<close>, the blobs given to \<^verbatim>\<open>URL.createObjectURL\<close> so far, the calls of
  \<^verbatim>\<open>URL.revokeObjectURL\<close> in order, the script elements built by \<^verbatim>\<open>document.createElement\<close>
  and inserted into the tree, each with the tree as it was right after the insertion (the
  host runs a script element when it is inserted, in that tree; what the script then does
  is not part of this state), and the \<^verbatim>\<open>disposables\<close> map of the activation.
\<close>

record world =
  document :: node
  isTrusted :: bool
  console :: "exn list"
  object_urls :: "blob list"
  revoked :: "nat list"
  scripts_inserted :: "(node \<times> node) list"
  disposables :: "(string \<times> disposable) list"

datatype outcome = Return world | Throw exn world

definition appendChild :: "path \<Rightarrow> node \<Rightarrow> world \<Rightarrow> world" where
  "appendChild parent child s = s\<lparr>document := update_at (append_child child) parent (document s)\<rparr>"

definition removeChild :: "path \<Rightarrow> world \<Rightarrow> world" where
  "removeChild child s =
     (if child = [] then s
      else s\<lparr>document := update_at (remove_child (last child)) (butlast child) (document s)\<rparr>)"

definition update_element :: "(node \<Rightarrow> node) \<Rightarrow> path \<Rightarrow> world \<Rightarrow> world" where
  "update_element f p s = s\<lparr>document := update_at f p (document s)\<rparr>"

section \<open>The renderer\<close>

subsection \<open>renderImage\<close>

definition renderImage :: "host \<Rightarrow> OutputItem \<Rightarrow> path \<Rightarrow> world \<Rightarrow> disposable \<times> world" where
  "renderImage h outputInfo element s =
     (let blob = \<lparr>blob_parts = [data_of outputInfo], blob_type = mime outputInfo\<rparr>;
          n = length (object_urls s);
          src = objectURL h n;
          s1 = s\<lparr>object_urls := object_urls s @ [blob]\<rparr>;
          disposable = Disposable n;
          image = setAttribute ''src'' src (createElement ''img'');
          display = append_child image (classList_add ''display'' (createElement ''div''))
      in (disposable, appendChild element display s1))"

subsection \<open>ttPolicy, preservedScriptAttributes, domEval\<close>

record policy =
  createHTML :: "string \<Rightarrow> string"
  createScript :: "string \<Rightarrow> string"

definition ttPolicy :: "host \<Rightarrow> policy option" where
  "ttPolicy h =
     (if trustedTypes h then Some \<lparr>createHTML = (\<lambda>v. v), createScript = (\<lambda>v. v)\<rparr> else None)"

definition preservedScriptAttributes :: "string list" where
  "preservedScriptAttributes = [''type'', ''src'', ''nonce'', ''noModule'', ''async'']"

text \<open>
  \<^verbatim>\<open>node.getAttribute(key)\<close> on an element that may be outside the HTML namespace, where the
  name is matched as it is written.
\<close>

fun getAttribute_exact :: "string \<Rightarrow> node \<Rightarrow> string option" where
  "getAttribute_exact k (Text d) = None"
| "getAttribute_exact k (Element t a c st ks) = map_get a k"

definition getAttribute_at :: "host \<Rightarrow> node \<Rightarrow> path \<Rightarrow> string \<Rightarrow> string option" where
  "getAttribute_at h doc node key =
     (case node_at doc node of
        None \<Rightarrow> None
      | Some n \<Rightarrow> if html_namespace h doc node then getAttribute key n else getAttribute_exact key n)"

text \<open>
  \<^verbatim>\<open>node[key] || node.getAttribute && node.getAttribute(key)\<close>, for the script element at the
  path \<open>node\<close> of the tree \<open>doc\<close>.
\<close>

definition preserved_value :: "host \<Rightarrow> node \<Rightarrow> path \<Rightarrow> string \<Rightarrow> jsvalue" where
  "preserved_value h doc node key =
     (if truthy (script_property h doc node key) then script_property h doc node key
      else (case getAttribute_at h doc node key of Some v \<Rightarrow> String v | None \<Rightarrow> Null))"

definition copy_attribute :: "host \<Rightarrow> node \<Rightarrow> path \<Rightarrow> string \<Rightarrow> node \<Rightarrow> node" where
  "copy_attribute h doc node key scriptTag =
     (let val = preserved_value h doc node key
      in if truthy val then setAttribute key (to_string val) scriptTag else scriptTag)"

text \<open>
  The script element one turn of the loop builds from the element at the path \<open>node\<close>.
  \<^verbatim>\<open>ttPolicy?.createScript(node.innerText) ?? node.innerText\<close>: the argument of
  \<^verbatim>\<open>createScript\<close> and the value assigned to \<^verbatim>\<open>scriptTag.text\<close> are converted to strings, so
  that \<^verbatim>\<open>undefined\<close> becomes the text \<^verbatim>\<open>undefined\<close>.
\<close>

definition new_scriptTag :: "host \<Rightarrow> node \<Rightarrow> path \<Rightarrow> node" where
  "new_scriptTag h doc node =
     (let scriptTag = createElement ''script'';
          trustedScript = (case ttPolicy h of
                             Some pol \<Rightarrow> createScript pol (to_string (innerText h doc node))
                           | None \<Rightarrow> to_string (innerText h doc node))
      in fold (copy_attribute h doc node) preservedScriptAttributes
           (set_text trustedScript scriptTag))"

text \<open>
  One turn of the loop, for the script element at the path \<open>node\<close> from the container.
  \<^verbatim>\<open>container.appendChild(scriptTag)\<close> makes the new element the last child of the
  container, where the host runs it; \<^verbatim>\<open>.parentNode!.removeChild(scriptTag)\<close> takes that
  child out again.
\<close>

definition domEval_step :: "host \<Rightarrow> path \<Rightarrow> path \<Rightarrow> world \<Rightarrow> world" where
  "domEval_step h container node s =
     (let scriptTag = new_scriptTag h (document s) (container @ node);
          child = container @ [num_children (document s) container];
          s1 = appendChild container scriptTag s;
          s2 = s1\<lparr>scripts_inserted := scripts_inserted s1 @ [(scriptTag, document s1)]\<rparr>
      in removeChild child s2)"

definition domEval :: "host \<Rightarrow> path \<Rightarrow> world \<Rightarrow> world" where
  "domEval h container s =
     (case node_at (document s) container of
        None \<Rightarrow> s
      | Some c \<Rightarrow> fold (domEval_step h container) (getElementsByTagName ''script'' c) s)"

subsection \<open>renderHTML, renderJavascript\<close>

definition set_innerHTML :: "host \<Rightarrow> string \<Rightarrow> node \<Rightarrow> node" where
  "set_innerHTML h markup n = set_childNodes (parse_fragment h markup) n"

definition renderHTML :: "host \<Rightarrow> OutputItem \<Rightarrow> path \<Rightarrow> world \<Rightarrow> world" where
  "renderHTML h outputInfo container s =
     (let htmlContent = text_of outputInfo;
          trustedHtml = (case ttPolicy h of
                           Some pol \<Rightarrow> createHTML pol htmlContent
                         | None \<Rightarrow> htmlContent);
          element = set_innerHTML h trustedHtml (createElement ''div'');
          element_path = container @ [num_children (document s) container];
          s1 = appendChild container element s
      in domEval h element_path s1)"

definition renderJavascript :: "host \<Rightarrow> OutputItem \<Rightarrow> path \<Rightarrow> world \<Rightarrow> world" where
  \<open>renderJavascript h outputInfo container s =
     (let str = text_of outputInfo;
          scriptVal = ''<script type="application/javascript">'' @ str @ ''</script>'';
          trustedHtml = (case ttPolicy h of
                           Some pol \<Rightarrow> createHTML pol scriptVal
                         | None \<Rightarrow> scriptVal);
          element = set_innerHTML h trustedHtml (createElement ''div'');
          element_path = container @ [num_children (document s) container];
          s1 = appendChild container element s
      in domEval h element_path s1)\<close>

subsection \<open>renderError\<close>

text \<open>
  A value typed \<^verbatim>\<open>string | undefined\<close>: in a condition it is true for a string that is not
  empty; in a template literal \<^verbatim>\<open>undefined\<close> prints as its name.
\<close>

fun truthy_str :: "string option \<Rightarrow> bool" where
  "truthy_str None = False"
| "truthy_str (Some v) = (v \<noteq> [])"

fun template_str :: "string option \<Rightarrow> string" where
  "template_str None = ''undefined''"
| "template_str (Some v) = v"

text \<open>
  \<^verbatim>\<open>err.name && err.message ? `${err.name}: ${err.message}` : err.name || err.message\<close>
\<close>

definition headerMessage :: "ErrorLike \<Rightarrow> string option" where
  "headerMessage err =
     (if truthy_str (name err) \<and> truthy_str (message err)
      then Some (template_str (name err) @ '': '' @ template_str (message err))
      else if truthy_str (name err) then name err else message err)"

text \<open>
  The \<^verbatim>\<open>try\<close> block catches the SyntaxError of \<^verbatim>\<open>JSON.parse\<close>. On \<^verbatim>\<open>null\<close> the read
  \<^verbatim>\<open>err.stack\<close>, which is outside the \<^verbatim>\<open>try\<close> block, throws a TypeError.
\<close>

definition renderError :: "host \<Rightarrow> OutputItem \<Rightarrow> path \<Rightarrow> world \<Rightarrow> outcome" where
  "renderError h outputInfo container s =
     (let element = createElement ''div'';
          s1 = appendChild container element s
      in case JSON_parse h (text_of outputInfo) of
           ParseError \<Rightarrow> Return (s1\<lparr>console := console s1 @ [SyntaxError]\<rparr>)
         | ParsedNull \<Rightarrow> Throw TypeError s1
         | Parsed err \<Rightarrow>
             (let s2 =
                (if truthy_str (stack err) then
                   (let stack0 = createElement ''pre'';
                        stack1 = classList_add ''traceback'' stack0;
                        stack2 = style_set ''margin'' ''8px 0'' stack1;
                        stack3 = append_child (handleANSIOutput h (template_str (stack err))) stack2
                    in appendChild container stack3 s1)
                 else
                   (let header = createElement ''div''
                    in if truthy_str (headerMessage err)
                       then appendChild container
                              (set_innerText (template_str (headerMessage err)) header) s1
                       else s1))
              in Return (update_element (classList_add ''error'') container s2)))"

subsection \<open>renderStream, renderText\<close>

text \<open>The part of \<^verbatim>\<open>renderStream\<close> after the look at the previous sibling: a new block.\<close>

definition stream_block :: "host \<Rightarrow> OutputItem \<Rightarrow> path \<Rightarrow> bool \<Rightarrow> world \<Rightarrow> world" where
  "stream_block h outputInfo container error s =
     (let element = classList_add ''output-stream'' (createElement ''span'');
          text = text_of outputInfo;
          element1 = truncatedArrayOfString h [text] 30 element;
          s1 = appendChild container element1 s;
          s2 = update_element (setAttribute ''output-mime-type'' (mime outputInfo)) container s1
      in if error then update_element (classList_add ''error'') container s2 else s2)"

text \<open>The branch \<^verbatim>\<open>// same stream\<close>: the text goes into \<open>outputElement\<close>.\<close>

definition stream_continue :: "host \<Rightarrow> OutputItem \<Rightarrow> path \<Rightarrow> world \<Rightarrow> world" where
  "stream_continue h outputInfo outputElement s =
     (let text = text_of outputInfo;
          element = createElement ''span'';
          element1 = truncatedArrayOfString h [text] 30 element
      in appendChild outputElement element1 s)"

text \<open>
  \<^verbatim>\<open>prev.firstChild\<close> is cast to \<^verbatim>\<open>HTMLElement | null\<close>; when it is a text node,
  \<^verbatim>\<open>outputElement.getAttribute\<close> is not a function and the call throws a TypeError.
\<close>

definition renderStream :: "host \<Rightarrow> OutputItem \<Rightarrow> path \<Rightarrow> bool \<Rightarrow> world \<Rightarrow> outcome" where
  "renderStream h outputInfo container error s =
     (case parentElement container of
        None \<Rightarrow> Return s
      | Some outputContainer \<Rightarrow>
          (case previousSibling outputContainer of
             None \<Rightarrow> Return (stream_block h outputInfo container error s)
           | Some prev \<Rightarrow>
               (case firstChild (document s) prev of
                  None \<Rightarrow> Return (stream_block h outputInfo container error s)
                | Some outputElement \<Rightarrow>
                    (case node_at (document s) outputElement of
                       Some (Text d) \<Rightarrow> Throw TypeError s
                     | Some (Element t a c st ks) \<Rightarrow>
                         (if getAttribute ''output-mime-type'' (Element t a c st ks)
                               = Some (mime outputInfo)
                          then Return (stream_continue h outputInfo outputElement s)
                          else Return (stream_block h outputInfo container error s))
                     | None \<Rightarrow> Return (stream_block h outputInfo container error s)))))"

definition renderText :: "host \<Rightarrow> OutputItem \<Rightarrow> path \<Rightarrow> world \<Rightarrow> world" where
  "renderText h outputInfo container s =
     (let contentNode = classList_add ''.output-plaintext'' (createElement ''div'');
          text = text_of outputInfo;
          contentNode1 = truncatedArrayOfString h [text] 30 contentNode
      in appendChild container contentNode1 s)"

subsection \<open>activate: renderOutputItem and disposeOutputItem\<close>

text \<open>\<^verbatim>\<open>const disposables = new Map<string, IDisposable>()\<close>\<close>

definition activate :: "world \<Rightarrow> world" where
  "activate s = s\<lparr>disposables := []\<rparr>"

definition renderOutputItem :: "host \<Rightarrow> OutputItem \<Rightarrow> path \<Rightarrow> world \<Rightarrow> outcome" where
  "renderOutputItem h outputInfo element s =
     (if mime outputInfo = ''text/html'' \<or> mime outputInfo = ''image/svg+xml'' then
        (if \<not> isTrusted s then Return s
         else Return (renderHTML h outputInfo element s))
      else if mime outputInfo = ''application/javascript'' then
        (if \<not> isTrusted s then Return s
         else Return (renderJavascript h outputInfo element s))
      else if mime outputInfo = ''image/gif'' \<or> mime outputInfo = ''image/png''
              \<or> mime outputInfo = ''image/jpeg'' \<or> mime outputInfo = ''image/git'' then
        (let (disposable, s1) = renderImage h outputInfo element s
         in Return (s1\<lparr>disposables := map_set (id_of outputInfo) disposable (disposables s1)\<rparr>))
      else if mime outputInfo = ''application/vnd.code.notebook.error'' then
        renderError h outputInfo element s
      else if mime outputInfo = ''application/vnd.code.notebook.stdout''
              \<or> mime outputInfo = ''application/x.notebook.stdout''
              \<or> mime outputInfo = ''application/x.notebook.stream'' then
        renderStream h outputInfo element False s
      else if mime outputInfo = ''application/vnd.code.notebook.stderr''
              \<or> mime outputInfo = ''application/x.notebook.stderr'' then
        renderStream h outputInfo element True s
      else if mime outputInfo = ''text/plain'' then
        Return (renderText h outputInfo element s)
      else Return s)"

text \<open>\<^verbatim>\<open>dispose: () => { URL.revokeObjectURL(src); }\<close>\<close>

definition dispose :: "disposable \<Rightarrow> world \<Rightarrow> world" where
  "dispose d s = s\<lparr>revoked := revoked s @ [captured d]\<rparr>"

text \<open>
  \<^verbatim>\<open>if (id)\<close> holds for a string that is not empty; \<^verbatim>\<open>undefined\<close> and the empty string
  take the other branch.
\<close>

definition disposeOutputItem :: "string option \<Rightarrow> world \<Rightarrow> world" where
  "disposeOutputItem ident s =
     (case ident of
        Some i \<Rightarrow>
          (if i \<noteq> [] then
             (case map_get (disposables s) i of
                Some d \<Rightarrow> dispose d s
              | None \<Rightarrow> s)
           else fold dispose (map snd (disposables s)) s)
      | None \<Rightarrow> fold dispose (map snd (disposables s)) s)"

text \<open>The state in which a call ends, whether it returned or threw.\<close>

fun world_of :: "outcome \<Rightarrow> world" where
  "world_of (Return s) = s"
| "world_of (Throw e s) = s"

subsection \<open>The dispatch table\<close>

text \<open>
  The table of section 4.1 of the specification, with the mime strings of the \<^verbatim>\<open>switch\<close>,
  and what each row of it asks for.
\<close>

datatype strategy =
  Markup | Script | RasterImage | StructuredError | StdoutStream | StderrStream | PlainText

definition dispatch_table :: "(string \<times> strategy) list" where
  "dispatch_table =
     [(''text/html'', Markup),
      (''image/svg+xml'', Markup),
      (''application/javascript'', Script),
      (''image/gif'', RasterImage),
      (''image/png'', RasterImage),
      (''image/jpeg'', RasterImage),
      (''image/git'', RasterImage),
      (''application/vnd.code.notebook.error'', StructuredError),
      (''application/vnd.code.notebook.stdout'', StdoutStream),
      (''application/x.notebook.stdout'', StdoutStream),
      (''application/x.notebook.stream'', StdoutStream),
      (''application/vnd.code.notebook.stderr'', StderrStream),
      (''application/x.notebook.stderr'', StderrStream),
      (''text/plain'', PlainText)]"

fun run_strategy :: "strategy \<Rightarrow> host \<Rightarrow> OutputItem \<Rightarrow> path \<Rightarrow> world \<Rightarrow> outcome" where
  "run_strategy Markup h p e s = (if isTrusted s then Return (renderHTML h p e s) else Return s)"
| "run_strategy Script h p e s =
     (if isTrusted s then Return (renderJavascript h p e s) else Return s)"
| "run_strategy RasterImage h p e s =
     Return ((snd (renderImage h p e s))
               \<lparr>disposables := map_set (id_of p) (fst (renderImage h p e s))
                                 (disposables (snd (renderImage h p e s)))\<rparr>)"
| "run_strategy StructuredError h p e s = renderError h p e s"
| "run_strategy StdoutStream h p e s = renderStream h p e False s"
| "run_strategy StderrStream h p e s = renderStream h p e True s"
| "run_strategy PlainText h p e s = Return (renderText h p e s)"

section \<open>A sample host and a sample notebook cell\<close>

text \<open>
  Concrete values for evaluating the renderer. The sample host knows the result of
  \<^verbatim>\<open>JSON.parse\<close> and of the HTML parser at the texts used below; every other text is
  undecodable JSON and markup without tags to it. Its formatters wrap their text in a span.
  The sample cell holds two output containers, each with one empty surface, at the paths
  \<open>[0, 0]\<close> and \<open>[1, 0]\<close>.
\<close>

definition sample_JSON_parse :: "string \<Rightarrow> parsed" where
  \<open>sample_JSON_parse t =
     (if t = ''{"name":"TypeError","message":"x is undefined"}''
        then Parsed \<lparr>name = Some ''TypeError'', message = Some ''x is undefined'', stack = None\<rparr>
      else if t = ''{"stack":"","name":"E"}''
        then Parsed \<lparr>name = Some ''E'', message = None, stack = Some ''''\<rparr>
      else if t = ''{"stack":"at f (a.js:1)","name":"E"}''
        then Parsed \<lparr>name = Some ''E'', message = None, stack = Some ''at f (a.js:1)''\<rparr>
      else if t = ''null'' then ParsedNull
      else ParseError)\<close>

definition sample_parse_fragment :: "string \<Rightarrow> node list" where
  \<open>sample_parse_fragment t =
     (if t = ''<p>hi</p><script defer>go()</script>''
        then [Element ''p'' [] [] [] [Text ''hi''],
              Element ''script'' [(''defer'', '''')] [] [] [Text ''go()'']]
      else if t = ''<script type="application/javascript">go()</script>''
        then [Element ''script'' [(''type'', ''application/javascript'')] [] [] [Text ''go()'']]
      else [Text t])\<close>

text \<open>
  The sample host's view of a script element: it is in SVG markup when an element above it
  is an \<^verbatim>\<open>svg\<close> element, and in the HTML namespace otherwise; an HTML script element is not
  rendered, so its \<^verbatim>\<open>innerText\<close> is its text content, and its \<^verbatim>\<open>type\<close>, \<^verbatim>\<open>src\<close> and
  \<^verbatim>\<open>nonce\<close> properties reflect the attributes, \<^verbatim>\<open>noModule\<close> and \<^verbatim>\<open>async\<close> their presence;
  a script element in SVG markup has the \<^verbatim>\<open>type\<close> and \<^verbatim>\<open>nonce\<close> properties only.
\<close>

fun below_svg :: "node \<Rightarrow> path \<Rightarrow> bool" where
  "below_svg n [] = False"
| "below_svg (Text d) (i # p) = False"
| "below_svg (Element t a c st ks) (i # p) =
     (t = ''svg'' \<or> (i < length ks \<and> below_svg (ks ! i) p))"

definition sample_innerText :: "node \<Rightarrow> path \<Rightarrow> jsvalue" where
  "sample_innerText doc p =
     (if below_svg doc p then Undefined
      else (case node_at doc p of Some n \<Rightarrow> String (textContent n) | None \<Rightarrow> Undefined))"

definition sample_script_property :: "node \<Rightarrow> path \<Rightarrow> string \<Rightarrow> jsvalue" where
  "sample_script_property doc p key =
     (case node_at doc p of
        None \<Rightarrow> Undefined
      | Some n \<Rightarrow>
          if key = ''type'' \<or> key = ''nonce'' \<or> (key = ''src'' \<and> \<not> below_svg doc p)
            then (case getAttribute key n of Some v \<Rightarrow> String v | None \<Rightarrow> String '''')
          else if (key = ''noModule'' \<or> key = ''async'') \<and> \<not> below_svg doc p
            then Boolean (getAttribute key n \<noteq> None)
          else Undefined)"

definition sample_host :: host where
  "sample_host =
     \<lparr>trustedTypes = True,
      JSON_parse = sample_JSON_parse,
      parse_fragment = sample_parse_fragment,
      innerText = sample_innerText,
      script_property = sample_script_property,
      html_namespace = (\<lambda>doc p. \<not> below_svg doc p),
      handleANSIOutput = (\<lambda>t. Element ''span'' [] [] [] [Text t]),
      truncatedArrayOfString =
        (\<lambda>lines limit target. append_child (Element ''span'' [] [] [] [Text (concat lines)]) target),
      objectURL = (\<lambda>n. ''blob:'' @ replicate n CHR ''u'')\<rparr>"

definition sample_world :: world where
  "sample_world =
     \<lparr>document =
        Element ''div'' [] [''cell''] []
          [Element ''div'' [] [''output''] [] [Element ''div'' [] [] [] []],
           Element ''div'' [] [''output''] [] [Element ''div'' [] [] [] []]],
      isTrusted = False,
      console = [],
      object_urls = [],
      revoked = [],
      scripts_inserted = [],
      disposables = []\<rparr>"

definition sample_item :: "string \<Rightarrow> string \<Rightarrow> string \<Rightarrow> OutputItem" where
  "sample_item i m t = \<lparr>id_of = i, mime = m, data_of = [], text_of = t\<rparr>"

subsection \<open>The registry invariant and sequences of host calls\<close>

text \<open>
  A \<^verbatim>\<open>Map\<close> holds each key once, and every Disposer in it captured an object URL that
  \<^verbatim>\<open>URL.createObjectURL\<close> has already issued.
\<close>

definition registry_ok :: "world \<Rightarrow> bool" where
  "registry_ok s \<longleftrightarrow>
     distinct (map fst (disposables s))
     \<and> list_all (\<lambda>kv. captured (snd kv) < length (object_urls s)) (disposables s)"

text \<open>
  What the host does with an activation, one call after the other: render a payload into a
  surface, dispose, or change the workspace trust or the tree between two calls. A call
  that throws leaves the state it had reached.
\<close>

datatype call =
    Render OutputItem path
  | Dispose "string option"
  | SetTrust bool
  | SetDocument node

fun run_call :: "host \<Rightarrow> call \<Rightarrow> world \<Rightarrow> world" where
  "run_call h (Render p e) s = world_of (renderOutputItem h p e s)"
| "run_call h (Dispose i) s = disposeOutputItem i s"
| "run_call h (SetTrust b) s = s\<lparr>isTrusted := b\<rparr>"
| "run_call h (SetDocument d) s = s\<lparr>document := d\<rparr>"

definition run_calls :: "host \<Rightarrow> call list \<Rightarrow> world \<Rightarrow> world" where
  "run_calls h cs s = fold (run_call h) cs s"

definition is_raster_image :: "string \<Rightarrow> bool" where
  "is_raster_image m \<longleftrightarrow>
     m = ''image/gif'' \<or> m = ''image/png'' \<or> m = ''image/jpeg'' \<or> m = ''image/git''"

text \<open>
  A Disposer that is not in the registry, for an object URL already issued, is never
  invoked by any later call: it stays out of the registry, and the count of its
  revocations stays what it was.
\<close>

definition unreachable_disposer :: "nat \<Rightarrow> world \<Rightarrow> bool" where
  "unreachable_disposer n s \<longleftrightarrow>
     n < length (object_urls s) \<and> Disposable n \<notin> snd ` set (disposables s)"

text \<open>
  The Disposer of object URL \<open>n\<close> is in the registry under the key \<open>k\<close> or not at all.
\<close>

definition only_under :: "nat \<Rightarrow> string \<Rightarrow> world \<Rightarrow> bool" where
  "only_under n k s \<longleftrightarrow>
     n < length (object_urls s)
     \<and> list_all (\<lambda>kv. snd kv \<noteq> Disposable n \<or> fst kv = k) (disposables s)"

section \<open>Properties\<close>

subsection \<open>Paths and registries\<close>

lemma update_at_comp: "update_at g p (update_at f p d) = update_at (g \<circ> f) p d"
  by (induction f p d rule: update_at.induct) auto


lemma node_at_update_at:
  "node_at (update_at f p d) p = map_option f (node_at d p)"
  by (induction f p d rule: update_at.induct) auto

lemma node_at_append:
  "node_at d (q @ r) = (case node_at d q of None \<Rightarrow> None | Some x \<Rightarrow> node_at x r)"
proof (induction q arbitrary: d)
  case Nil
  then show ?case by simp
next
  case (Cons k q)
  then show ?case by (cases d) simp_all
qed

lemma fold_dispose: "fold dispose ds s = s\<lparr>revoked := revoked s @ map captured ds\<rparr>"
  by (induction ds arbitrary: s) (auto simp: dispose_def)

subsection \<open>Stream rendering without a parent container\<close>

text \<open>
  C9. When the surface has no parent container, \<^verbatim>\<open>renderStream\<close> returns without throwing
  and leaves the whole state, the surface with it, as it was.
\<close>

theorem renderStream_no_parent:
  "parentElement container = None \<Longrightarrow> renderStream h outputInfo container error s = Return s"
  by (simp add: renderStream_def)

theorem renderStream_no_parent_witness:
  "parentElement [] = None \<and>
   renderStream sample_host
       (sample_item ''o1'' ''application/vnd.code.notebook.stdout'' ''hello'') [] False sample_world
     = Return sample_world"
proof -
  have h: "parentElement [] = None" by (simp add: parentElement_def)
  show ?thesis using h renderStream_no_parent [OF h] by simp
qed

subsection \<open>Trust gating\<close>

text \<open>
  C1. For a payload whose mime is \<^verbatim>\<open>text/html\<close>, \<^verbatim>\<open>image/svg+xml\<close> or
  \<^verbatim>\<open>application/javascript\<close>: when the workspace is not trusted at the call,
  \<^verbatim>\<open>renderOutputItem\<close> returns with the state unchanged, so the surface is not mutated and
  nothing is registered; when it is trusted, the call returns what \<^verbatim>\<open>renderHTML\<close>, or
  \<^verbatim>\<open>renderJavascript\<close> for the script mime, makes of the state.
\<close>

theorem trust_gate:
  "mime outputInfo = ''text/html'' \<or> mime outputInfo = ''image/svg+xml''
     \<or> mime outputInfo = ''application/javascript'' \<Longrightarrow>
   renderOutputItem h outputInfo element s =
     (if \<not> isTrusted s then Return s
      else if mime outputInfo = ''application/javascript''
        then Return (renderJavascript h outputInfo element s)
        else Return (renderHTML h outputInfo element s))"
  by (auto simp: renderOutputItem_def)

theorem trust_gate_witness:
  "renderOutputItem sample_host (sample_item ''o1'' ''text/html'' ''<p>hi</p><script defer>go()</script>'')
       [0, 0] sample_world = Return sample_world
   \<and> renderOutputItem sample_host (sample_item ''o1'' ''application/javascript'' ''go()'')
       [0, 0] (sample_world\<lparr>isTrusted := True\<rparr>)
     = Return (renderJavascript sample_host (sample_item ''o1'' ''application/javascript'' ''go()'')
         [0, 0] (sample_world\<lparr>isTrusted := True\<rparr>))"
  using trust_gate [of "sample_item ''o1'' ''text/html'' ''<p>hi</p><script defer>go()</script>''"
                       sample_host "[0, 0]" sample_world]
        trust_gate [of "sample_item ''o1'' ''application/javascript'' ''go()''"
                       sample_host "[0, 0]" "sample_world\<lparr>isTrusted := True\<rparr>"]
  by (simp add: sample_item_def sample_world_def)

subsection \<open>Disposal\<close>

text \<open>
  C2 as the specification states it fails: the second \<^verbatim>\<open>disposeOutputItem('a')\<close> invokes
  the Disposer of \<^verbatim>\<open>'a'\<close> again, and a bulk dispose neither empties the registry nor makes
  the next bulk dispose a no-op. Below, an image is rendered for identity \<^verbatim>\<open>'a'\<close> in a fresh
  activation; its Disposer revokes object URL 0.
\<close>

theorem dispose_twice_counterexample:
  "revoked (disposeOutputItem (Some ''a'') (disposeOutputItem (Some ''a'')
      (world_of (renderOutputItem sample_host (sample_item ''a'' ''image/png'' '''') [0, 0]
         (activate sample_world))))) = [0, 0]
   \<and> disposables (disposeOutputItem None
      (world_of (renderOutputItem sample_host (sample_item ''a'' ''image/png'' '''') [0, 0]
         (activate sample_world)))) = [(''a'', Disposable 0)]
   \<and> revoked (disposeOutputItem None (disposeOutputItem None
      (world_of (renderOutputItem sample_host (sample_item ''a'' ''image/png'' '''') [0, 0]
         (activate sample_world))))) = [0, 0]"
  by (simp add: renderOutputItem_def renderImage_def sample_item_def activate_def sample_world_def
      disposeOutputItem_def map_get_def dispose_def appendChild_def)

text \<open>
  C2, amended. No call of \<^verbatim>\<open>disposeOutputItem\<close> changes the registry. A call with a
  registered identity that is not the empty string invokes that identity's Disposer exactly
  once, and so does the next such call. A call with no identity invokes every registered
  Disposer exactly once, in insertion order, and so does the next such call.
\<close>

theorem dispose_each_call:
  "disposables (disposeOutputItem ident s) = disposables s
   \<and> (i \<noteq> [] \<and> map_get (disposables s) i = Some d \<longrightarrow>
        revoked (disposeOutputItem (Some i) s) = revoked s @ [captured d]
        \<and> revoked (disposeOutputItem (Some i) (disposeOutputItem (Some i) s))
            = revoked s @ [captured d, captured d])
   \<and> revoked (disposeOutputItem None s) = revoked s @ map captured (map snd (disposables s))
   \<and> revoked (disposeOutputItem None (disposeOutputItem None s))
        = revoked s @ map captured (map snd (disposables s))
            @ map captured (map snd (disposables s))"
  by (auto simp: disposeOutputItem_def fold_dispose dispose_def split: option.splits)

theorem dispose_each_call_witness:
  "disposables (disposeOutputItem (Some ''a'') (sample_world\<lparr>disposables := [(''a'', Disposable 0)]\<rparr>))
     = [(''a'', Disposable 0)]
   \<and> revoked (disposeOutputItem (Some ''a'') (sample_world\<lparr>disposables := [(''a'', Disposable 0)]\<rparr>))
     = [0]
   \<and> revoked (disposeOutputItem (Some ''a'') (disposeOutputItem (Some ''a'')
        (sample_world\<lparr>disposables := [(''a'', Disposable 0)]\<rparr>))) = [0, 0]
   \<and> revoked (disposeOutputItem None (sample_world\<lparr>disposables := [(''a'', Disposable 0)]\<rparr>))
     = [0]"
  using dispose_each_call [of "Some ''a''" "sample_world\<lparr>disposables := [(''a'', Disposable 0)]\<rparr>"
                              "''a''" "Disposable 0"]
  by (simp add: map_get_def sample_world_def)

subsection \<open>Dispatch\<close>

text \<open>
  C6. \<^verbatim>\<open>renderOutputItem\<close> does what the dispatch table maps the payload's mime to, and
  for a mime that is not in the table it returns with the state unchanged.
\<close>

theorem dispatch_refines_table:
  "renderOutputItem h p e s =
     (case map_of dispatch_table (mime p) of
        Some strat \<Rightarrow> run_strategy strat h p e s
      | None \<Rightarrow> Return s)"
  by (simp add: renderOutputItem_def dispatch_table_def split_beta Let_def)

theorem dispatch_refines_table_witness:
  "renderOutputItem sample_host (sample_item ''o1'' ''application/json'' ''{}'') [0, 0] sample_world
     = Return sample_world
   \<and> renderOutputItem sample_host (sample_item ''o1'' ''application/x.notebook.stream'' ''hi'') [0, 0]
        sample_world
     = renderStream sample_host (sample_item ''o1'' ''application/x.notebook.stream'' ''hi'') [0, 0]
        False sample_world"
  using dispatch_refines_table
          [of sample_host "sample_item ''o1'' ''application/json'' ''{}''" "[0, 0]" sample_world]
        dispatch_refines_table
          [of sample_host "sample_item ''o1'' ''application/x.notebook.stream'' ''hi''" "[0, 0]"
              sample_world]
  by (simp add: dispatch_table_def sample_item_def)

subsection \<open>What a call leaves alone\<close>

text \<open>
  Only an image render changes the issued object URLs or the registry, and no render
  revokes a URL.
\<close>

lemma domEval_step_frame:
  "object_urls (domEval_step h c n s) = object_urls s
   \<and> revoked (domEval_step h c n s) = revoked s
   \<and> disposables (domEval_step h c n s) = disposables s
   \<and> isTrusted (domEval_step h c n s) = isTrusted s
   \<and> console (domEval_step h c n s) = console s"
  by (simp add: domEval_step_def Let_def appendChild_def removeChild_def)

lemma domEval_fold_frame:
  "object_urls (fold (domEval_step h c) ns s) = object_urls s
   \<and> revoked (fold (domEval_step h c) ns s) = revoked s
   \<and> disposables (fold (domEval_step h c) ns s) = disposables s
   \<and> isTrusted (fold (domEval_step h c) ns s) = isTrusted s
   \<and> console (fold (domEval_step h c) ns s) = console s"
  by (induction ns arbitrary: s) (simp_all add: domEval_step_frame)

lemma domEval_frame:
  "object_urls (domEval h c s) = object_urls s
   \<and> revoked (domEval h c s) = revoked s
   \<and> disposables (domEval h c s) = disposables s
   \<and> isTrusted (domEval h c s) = isTrusted s
   \<and> console (domEval h c s) = console s"
  by (simp add: domEval_def domEval_fold_frame split: option.splits)

lemma renderHTML_frame:
  "object_urls (renderHTML h p e s) = object_urls s
   \<and> revoked (renderHTML h p e s) = revoked s
   \<and> disposables (renderHTML h p e s) = disposables s"
  by (simp add: renderHTML_def Let_def domEval_frame appendChild_def)

lemma renderJavascript_frame:
  "object_urls (renderJavascript h p e s) = object_urls s
   \<and> revoked (renderJavascript h p e s) = revoked s
   \<and> disposables (renderJavascript h p e s) = disposables s"
  by (simp add: renderJavascript_def Let_def domEval_frame appendChild_def)

lemma renderError_frame:
  "object_urls (world_of (renderError h p e s)) = object_urls s
   \<and> revoked (world_of (renderError h p e s)) = revoked s
   \<and> disposables (world_of (renderError h p e s)) = disposables s"
  by (simp add: renderError_def Let_def appendChild_def update_element_def split: parsed.splits)

lemma renderStream_frame:
  "object_urls (world_of (renderStream h p e b s)) = object_urls s
   \<and> revoked (world_of (renderStream h p e b s)) = revoked s
   \<and> disposables (world_of (renderStream h p e b s)) = disposables s"
  by (simp add: renderStream_def stream_block_def stream_continue_def Let_def appendChild_def
      update_element_def split: option.splits node.splits)

lemma renderText_frame:
  "object_urls (renderText h p e s) = object_urls s
   \<and> revoked (renderText h p e s) = revoked s
   \<and> disposables (renderText h p e s) = disposables s"
  by (simp add: renderText_def Let_def appendChild_def)

lemma render_image_world:
  "is_raster_image (mime p) \<Longrightarrow>
   renderOutputItem h p e s =
     Return (s\<lparr>document :=
                 update_at
                   (append_child
                      (Element ''div'' [] [''display''] []
                         [Element ''img'' [(''src'', objectURL h (length (object_urls s)))] [] [] []]))
                   e (document s),
               object_urls :=
                 object_urls s @ [\<lparr>blob_parts = [data_of p], blob_type = mime p\<rparr>],
               disposables :=
                 map_set (id_of p) (Disposable (length (object_urls s))) (disposables s)\<rparr>)"
  by (auto simp: is_raster_image_def renderOutputItem_def renderImage_def Let_def appendChild_def
      createElement_def ascii_lower_def lower_char_def)

lemma render_other_registry:
  "\<not> is_raster_image (mime p) \<Longrightarrow>
   object_urls (world_of (renderOutputItem h p e s)) = object_urls s
   \<and> revoked (world_of (renderOutputItem h p e s)) = revoked s
   \<and> disposables (world_of (renderOutputItem h p e s)) = disposables s"
  by (simp add: is_raster_image_def renderOutputItem_def renderHTML_frame renderJavascript_frame
      renderError_frame renderStream_frame renderText_frame)

lemma dispose_registry:
  "object_urls (disposeOutputItem i s) = object_urls s
   \<and> disposables (disposeOutputItem i s) = disposables s"
  by (simp add: disposeOutputItem_def fold_dispose dispose_def split: option.splits)

subsection \<open>Registries\<close>

lemma map_set_keys: "fst ` set (map_set k v kvs) = insert k (fst ` set kvs)"
  by (induction k v kvs rule: map_set.induct) auto

lemma map_set_distinct: "distinct (map fst kvs) \<Longrightarrow> distinct (map fst (map_set k v kvs))"
  by (induction k v kvs rule: map_set.induct) (auto simp: map_set_keys)

lemma map_set_values: "snd ` set (map_set k v kvs) \<subseteq> insert v (snd ` set kvs)"
  by (induction k v kvs rule: map_set.induct) auto

lemma map_get_map_set: "map_get (map_set k v kvs) k' = (if k' = k then Some v else map_get kvs k')"
  by (induction k v kvs rule: map_set.induct) (auto simp: map_get_def)

lemma filter_absent: "k \<notin> fst ` set kvs \<Longrightarrow> filter (\<lambda>kv. fst kv = k) kvs = []"
  by (induction kvs) auto

lemma map_set_filter:
  "distinct (map fst kvs) \<Longrightarrow> filter (\<lambda>kv. fst kv = k) (map_set k v kvs) = [(k, v)]"
  by (induction k v kvs rule: map_set.induct) (auto simp: filter_absent)

lemma map_set_count_fresh:
  "v \<notin> snd ` set kvs \<Longrightarrow> count_list (map snd (map_set k v kvs)) v = 1"
  by (induction k v kvs rule: map_set.induct) (auto simp: image_iff count_list_0_iff)

lemma list_all_map_set:
  "list_all P kvs \<Longrightarrow> P (k, v) \<Longrightarrow> list_all P (map_set k v kvs)"
  by (induction k v kvs rule: map_set.induct) auto

lemma registry_ok_activate: "registry_ok (activate s)"
  by (simp add: registry_ok_def activate_def)

lemma registry_ok_render: "registry_ok s \<Longrightarrow> registry_ok (world_of (renderOutputItem h p e s))"
proof (cases "is_raster_image (mime p)")
  case True
  assume ok: "registry_ok s"
  have "list_all (\<lambda>kv. captured (snd kv) < Suc (length (object_urls s))) (disposables s)"
    using ok by (auto simp: registry_ok_def list_all_iff)
  then have "list_all (\<lambda>kv. captured (snd kv) < Suc (length (object_urls s)))
               (map_set (id_of p) (Disposable (length (object_urls s))) (disposables s))"
    by (rule list_all_map_set) simp
  then show ?thesis
    using ok by (simp add: render_image_world [OF True] registry_ok_def map_set_distinct)
next
  case False
  assume "registry_ok s"
  then show ?thesis
    using render_other_registry [OF False, of h e s] by (simp add: registry_ok_def)
qed

lemma registry_ok_call: "registry_ok s \<Longrightarrow> registry_ok (run_call h c s)"
proof (cases c)
  case (Render p e)
  assume "registry_ok s"
  then show ?thesis using Render by (simp add: registry_ok_render)
next
  case (Dispose i)
  assume "registry_ok s"
  then show ?thesis using Dispose dispose_registry [of i s] by (simp add: registry_ok_def)
next
  case (SetTrust b)
  assume "registry_ok s"
  then show ?thesis using SetTrust by (simp add: registry_ok_def)
next
  case (SetDocument d)
  assume "registry_ok s"
  then show ?thesis using SetDocument by (simp add: registry_ok_def)
qed

lemma registry_ok_calls: "registry_ok s \<Longrightarrow> registry_ok (run_calls h cs s)"
  unfolding run_calls_def
  by (induction cs arbitrary: s) (simp_all add: registry_ok_call)

lemma captured_inj: "captured d = n \<longleftrightarrow> d = Disposable n"
  by (cases d) auto

lemma unreachable_call:
  assumes "unreachable_disposer n s"
  shows "unreachable_disposer n (run_call h c s)
         \<and> count_list (revoked (run_call h c s)) n = count_list (revoked s) n"
proof (cases c)
  case (Render p e)
  show ?thesis
  proof (cases "is_raster_image (mime p)")
    case True
    have "snd ` set (map_set (id_of p) (Disposable (length (object_urls s))) (disposables s))
            \<subseteq> insert (Disposable (length (object_urls s))) (snd ` set (disposables s))"
      by (rule map_set_values)
    then show ?thesis
      using assms Render by (auto simp: render_image_world [OF True] unreachable_disposer_def)
  next
    case False
    then show ?thesis
      using assms Render render_other_registry [OF False, of h e s]
      by (simp add: unreachable_disposer_def)
  qed
next
  case (Dispose i)
  have out: "\<And>k d. (k, d) \<in> set (disposables s) \<Longrightarrow> captured d \<noteq> n"
    using assms by (force simp: unreachable_disposer_def captured_inj)
  then have "count_list (map captured (map snd (disposables s))) n = 0"
    by (force simp: count_list_0_iff)
  moreover have "\<And>k d. map_get (disposables s) k = Some d \<Longrightarrow> captured d \<noteq> n"
    using out by (auto simp: map_get_def dest!: map_of_SomeD)
  ultimately show ?thesis
    using assms Dispose dispose_registry [of i s]
    by (auto simp: unreachable_disposer_def disposeOutputItem_def fold_dispose dispose_def
        split: option.splits)
next
  case (SetTrust b)
  then show ?thesis using assms by (simp add: unreachable_disposer_def)
next
  case (SetDocument d)
  then show ?thesis using assms by (simp add: unreachable_disposer_def)
qed

lemma unreachable_calls:
  "unreachable_disposer n s \<Longrightarrow>
   unreachable_disposer n (run_calls h cs s)
   \<and> count_list (revoked (run_calls h cs s)) n = count_list (revoked s) n"
  unfolding run_calls_def
proof (induction cs arbitrary: s)
  case Nil
  then show ?case by simp
next
  case (Cons c cs)
  from unreachable_call [OF Cons.prems, of h c]
  have step: "unreachable_disposer n (run_call h c s)"
    and cnt: "count_list (revoked (run_call h c s)) n = count_list (revoked s) n"
    by simp_all
  from Cons.IH [OF step] cnt show ?case by simp
qed

lemma count_captured_snd:
  "count_list (map (captured \<circ> snd) kvs) n = count_list (map snd kvs) (Disposable n)"
  by (induction kvs) (auto simp: captured_inj)

lemma map_set_entries:
  "set (map_set k v kvs) \<subseteq> insert (k, v) {kv \<in> set kvs. fst kv \<noteq> k} \<union> {kv \<in> set kvs. fst kv = k \<and> \<not> distinct (map fst kvs)}"
  by (induction k v kvs rule: map_set.induct) (auto simp: image_iff)

lemma map_set_entries_distinct:
  "distinct (map fst kvs) \<Longrightarrow> set (map_set k v kvs) \<subseteq> insert (k, v) {kv \<in> set kvs. fst kv \<noteq> k}"
  using map_set_entries [of k v kvs] by auto

lemma only_under_call:
  assumes "only_under n k s"
  shows "only_under n k (run_call h c s)"
proof (cases c)
  case (Render p e)
  show ?thesis
  proof (cases "is_raster_image (mime p)")
    case True
    have "list_all (\<lambda>kv. snd kv \<noteq> Disposable n \<or> fst kv = k)
            (map_set (id_of p) (Disposable (length (object_urls s))) (disposables s))"
      using assms by (intro list_all_map_set) (auto simp: only_under_def)
    then show ?thesis
      using assms Render by (simp add: render_image_world [OF True] only_under_def)
  next
    case False
    then show ?thesis
      using assms Render render_other_registry [OF False, of h e s] by (simp add: only_under_def)
  qed
next
  case (Dispose i)
  then show ?thesis using assms dispose_registry [of i s] by (simp add: only_under_def)
next
  case (SetTrust b)
  then show ?thesis using assms by (simp add: only_under_def)
next
  case (SetDocument d)
  then show ?thesis using assms by (simp add: only_under_def)
qed

lemma only_under_calls: "only_under n k s \<Longrightarrow> only_under n k (run_calls h cs s)"
  unfolding run_calls_def
  by (induction cs arbitrary: s) (simp_all add: only_under_call)


subsection \<open>Image rendering and its Disposer\<close>

text \<open>
  C8. For a payload with one of the four raster-image mimes (\<^verbatim>\<open>image/git\<close> among them),
  \<^verbatim>\<open>renderOutputItem\<close> returns, whatever the workspace trust is, with the display block
  appended to the surface and with the new Disposer, which occurs once in the registry,
  under the payload's identity; the next \<^verbatim>\<open>disposeOutputItem\<close> with that identity invokes
  this Disposer exactly once, and nothing else when the identity is not the empty string.
\<close>

theorem image_registers_disposer:
  assumes "is_raster_image (mime p)" and "registry_ok s"
  shows "renderOutputItem h p e s = Return (world_of (renderOutputItem h p e s))
    \<and> renderOutputItem h p e (s\<lparr>isTrusted := b\<rparr>)
        = Return ((world_of (renderOutputItem h p e s))\<lparr>isTrusted := b\<rparr>)
    \<and> document (world_of (renderOutputItem h p e s))
        = update_at
            (append_child
               (Element ''div'' [] [''display''] []
                  [Element ''img'' [(''src'', objectURL h (length (object_urls s)))] [] [] []]))
            e (document s)
    \<and> disposables (world_of (renderOutputItem h p e s))
        = map_set (id_of p) (Disposable (length (object_urls s))) (disposables s)
    \<and> map_get (disposables (world_of (renderOutputItem h p e s))) (id_of p)
        = Some (Disposable (length (object_urls s)))
    \<and> count_list (map snd (disposables (world_of (renderOutputItem h p e s))))
          (Disposable (length (object_urls s))) = 1
    \<and> count_list (revoked (disposeOutputItem (Some (id_of p)) (world_of (renderOutputItem h p e s))))
          (length (object_urls s))
        = Suc (count_list (revoked (world_of (renderOutputItem h p e s))) (length (object_urls s)))
    \<and> (id_of p \<noteq> [] \<longrightarrow>
          revoked (disposeOutputItem (Some (id_of p)) (world_of (renderOutputItem h p e s)))
            = revoked (world_of (renderOutputItem h p e s)) @ [length (object_urls s)])"
proof -
  let ?n = "length (object_urls s)"
  have fresh: "Disposable ?n \<notin> snd ` set (disposables s)"
    using assms(2) by (force simp: registry_ok_def list_all_iff)
  have one: "count_list (map snd (map_set (id_of p) (Disposable ?n) (disposables s))) (Disposable ?n) = 1"
    using fresh by (rule map_set_count_fresh)

  show ?thesis
    using one
    by (auto simp: render_image_world [OF assms(1)] map_get_map_set disposeOutputItem_def
        fold_dispose dispose_def count_captured_snd)
qed

theorem image_registers_disposer_witness:
  "is_raster_image (mime (sample_item ''a'' ''image/git'' ''''))
   \<and> registry_ok (activate sample_world)
   \<and> document (world_of (renderOutputItem sample_host (sample_item ''a'' ''image/git'' '''') [0, 0]
        (activate sample_world)))
     = Element ''div'' [] [''cell''] []
         [Element ''div'' [] [''output''] []
            [Element ''div'' [] [] []
               [Element ''div'' [] [''display''] [] [Element ''img'' [(''src'', ''blob:'')] [] [] []]]],
          Element ''div'' [] [''output''] [] [Element ''div'' [] [] [] []]]
   \<and> disposables (world_of (renderOutputItem sample_host (sample_item ''a'' ''image/git'' '''') [0, 0]
        (activate sample_world))) = [(''a'', Disposable 0)]
   \<and> count_list (revoked (disposeOutputItem (Some ''a'')
        (world_of (renderOutputItem sample_host (sample_item ''a'' ''image/git'' '''') [0, 0]
           (activate sample_world))))) 0 = 1"
proof -
  have m: "is_raster_image (mime (sample_item ''a'' ''image/git'' ''''))"
    by (simp add: is_raster_image_def sample_item_def)
  have ok: "registry_ok (activate sample_world)"
    by (simp add: registry_ok_def activate_def)
  have r: "revoked (world_of (renderOutputItem sample_host (sample_item ''a'' ''image/git'' '''') [0, 0]
        (activate sample_world))) = []"
    by (simp add: render_image_world [OF m] activate_def sample_world_def)
  show ?thesis
    using m ok r image_registers_disposer [OF m ok, of sample_host "[0, 0]" False]
    by (simp add: sample_item_def sample_world_def activate_def sample_host_def)
qed

subsection \<open>Two image renders under one identity\<close>

lemma render_image_only_under:
  assumes "registry_ok s" and "is_raster_image (mime p)"
  shows "only_under (length (object_urls s)) (id_of p) (world_of (renderOutputItem h p e s))"
proof -
  have "list_all (\<lambda>kv. snd kv \<noteq> Disposable (length (object_urls s)) \<or> fst kv = id_of p)
          (disposables s)"
    using assms(1) by (force simp: registry_ok_def list_all_iff)
  then have "list_all (\<lambda>kv. snd kv \<noteq> Disposable (length (object_urls s)) \<or> fst kv = id_of p)
          (map_set (id_of p) (Disposable (length (object_urls s))) (disposables s))"
    by (rule list_all_map_set) simp
  then show ?thesis
    by (simp add: render_image_world [OF assms(2)] only_under_def)
qed

text \<open>
  C10. Two image renders with the same identity in one activation, with any host calls
  between them: after the second render the registry holds, under that identity, the second
  Disposer and no other entry; the first Disposer is in the registry no more; the second
  render itself invokes no Disposer; and whatever calls follow, the first Disposer is not
  invoked again.
\<close>

theorem second_image_overwrites:
  assumes "registry_ok s"
    and "is_raster_image (mime p1)" and "is_raster_image (mime p2)"
    and "id_of p1 = id_of p2"
    and "s1 = run_calls h between (world_of (renderOutputItem h p1 e1 s))"
    and "s2 = world_of (renderOutputItem h p2 e2 s1)"
  shows "map_get (disposables (world_of (renderOutputItem h p1 e1 s))) (id_of p1)
           = Some (Disposable (length (object_urls s)))
    \<and> length (object_urls s) < length (object_urls s1)
    \<and> map_get (disposables s2) (id_of p2) = Some (Disposable (length (object_urls s1)))
    \<and> filter (\<lambda>kv. fst kv = id_of p2) (disposables s2)
         = [(id_of p2, Disposable (length (object_urls s1)))]
    \<and> Disposable (length (object_urls s)) \<notin> snd ` set (disposables s2)
    \<and> revoked s2 = revoked s1
    \<and> count_list (revoked (run_calls h later s2)) (length (object_urls s))
         = count_list (revoked s1) (length (object_urls s))"
proof -
  let ?n1 = "length (object_urls s)"
  let ?n2 = "length (object_urls s1)"
  let ?k = "id_of p2"
  have under1: "only_under ?n1 ?k s1"
    using render_image_only_under [OF assms(1,2), of h e1] assms(4,5)
    by (simp add: only_under_calls)
  have ok1: "registry_ok s1"
    using assms(1,5) by (simp add: registry_ok_calls registry_ok_render)
  have lt: "?n1 < ?n2" using under1 by (simp add: only_under_def)
  have reg2: "disposables s2 = map_set ?k (Disposable ?n2) (disposables s1)"
    and rev2: "revoked s2 = revoked s1"
    and urls2: "length (object_urls s2) = Suc ?n2"
    using assms(6) by (simp_all add: render_image_world [OF assms(3)])
  have dist: "distinct (map fst (disposables s1))" using ok1 by (simp add: registry_ok_def)
  have "set (disposables s2) \<subseteq> insert (?k, Disposable ?n2) {kv \<in> set (disposables s1). fst kv \<noteq> ?k}"
    unfolding reg2 using dist by (rule map_set_entries_distinct)
  moreover have "\<And>kv. kv \<in> set (disposables s1) \<Longrightarrow> fst kv \<noteq> ?k \<Longrightarrow> snd kv \<noteq> Disposable ?n1"
    using under1 by (auto simp: only_under_def list_all_iff)
  ultimately have gone: "Disposable ?n1 \<notin> snd ` set (disposables s2)"
    using lt by force
  have "unreachable_disposer ?n1 s2"
    using gone lt urls2 by (simp add: unreachable_disposer_def)
  from unreachable_calls [OF this, of h later]
  have later: "count_list (revoked (run_calls h later s2)) ?n1 = count_list (revoked s2) ?n1"
    by simp
  have first: "map_get (disposables (world_of (renderOutputItem h p1 e1 s))) (id_of p1)
                 = Some (Disposable ?n1)"
    by (simp add: render_image_world [OF assms(2)] map_get_map_set)
  show ?thesis
    using first lt gone later rev2 dist
    by (simp add: reg2 map_get_map_set map_set_filter)
qed

theorem second_image_overwrites_witness:
  "registry_ok (activate sample_world)
   \<and> is_raster_image (mime (sample_item ''a'' ''image/png'' ''''))
   \<and> is_raster_image (mime (sample_item ''a'' ''image/gif'' ''''))
   \<and> disposables
        (world_of (renderOutputItem sample_host (sample_item ''a'' ''image/gif'' '''') [1, 0]
           (world_of (renderOutputItem sample_host (sample_item ''a'' ''image/png'' '''') [0, 0]
              (activate sample_world)))))
       = [(''a'', Disposable 1)]
   \<and> count_list (revoked (run_calls sample_host [Dispose (Some ''a''), Dispose None]
        (world_of (renderOutputItem sample_host (sample_item ''a'' ''image/gif'' '''') [1, 0]
           (world_of (renderOutputItem sample_host (sample_item ''a'' ''image/png'' '''') [0, 0]
              (activate sample_world))))))) 0 = 0"
proof -
  have ok: "registry_ok (activate sample_world)"
    by (simp add: registry_ok_def activate_def)
  have m1: "is_raster_image (mime (sample_item ''a'' ''image/png'' ''''))"
    by (simp add: is_raster_image_def sample_item_def)
  have m2: "is_raster_image (mime (sample_item ''a'' ''image/gif'' ''''))"
    by (simp add: is_raster_image_def sample_item_def)
  have same: "id_of (sample_item ''a'' ''image/png'' '''') = id_of (sample_item ''a'' ''image/gif'' '''')"
    by (simp add: sample_item_def)
  have between: "world_of (renderOutputItem sample_host (sample_item ''a'' ''image/png'' '''') [0, 0]
                    (activate sample_world))
      = run_calls sample_host [] (world_of (renderOutputItem sample_host
          (sample_item ''a'' ''image/png'' '''') [0, 0] (activate sample_world)))"
    by (simp add: run_calls_def)
  have r: "revoked (world_of (renderOutputItem sample_host (sample_item ''a'' ''image/png'' '''') [0, 0]
                    (activate sample_world))) = []"
    by (simp add: render_image_world [OF m1] activate_def sample_world_def)
  have d: "disposables
        (world_of (renderOutputItem sample_host (sample_item ''a'' ''image/gif'' '''') [1, 0]
           (world_of (renderOutputItem sample_host (sample_item ''a'' ''image/png'' '''') [0, 0]
              (activate sample_world)))))
       = [(''a'', Disposable 1)]"
    by (simp add: renderOutputItem_def renderImage_def sample_item_def activate_def
        sample_world_def appendChild_def)
  show ?thesis
    using ok m1 m2 r d
      second_image_overwrites [OF ok m1 m2 same between refl,
        of "[1, 0]" "[Dispose (Some ''a''), Dispose None]"]
    by (simp add: activate_def sample_world_def)
qed

subsection \<open>Structured errors\<close>

text \<open>
  C4 as the specification states it fails: \<^verbatim>\<open>renderError\<close> appends its empty \<^verbatim>\<open>div\<close> to the
  surface before it decodes the text, so after the text \<^verbatim>\<open>not json\<close> the surface at \<open>[0, 0]\<close>,
  which had no child, has one.
\<close>

theorem renderError_undecodable_counterexample:
  "JSON_parse sample_host ''not json'' = ParseError
   \<and> node_at (document sample_world) [0, 0] = Some (Element ''div'' [] [] [] [])
   \<and> node_at (document (world_of (renderError sample_host
         (sample_item ''o1'' ''application/vnd.code.notebook.error'' ''not json'') [0, 0] sample_world)))
       [0, 0]
     = Some (Element ''div'' [] [] [] [Element ''div'' [] [] [] []])"
  by (simp add: renderError_def sample_host_def sample_JSON_parse_def sample_item_def
      sample_world_def appendChild_def createElement_def)

text \<open>
  C4, amended. When the text of a structured-error payload does not decode, \<^verbatim>\<open>renderError\<close>
  logs the failure and returns without raising; the state differs from the one before by the
  log entry and by one empty \<^verbatim>\<open>div\<close> appended to the surface, and by nothing else: no
  traceback, no header, no error mark.
\<close>

theorem renderError_undecodable:
  assumes "JSON_parse h (text_of p) = ParseError"
    and "mime p = ''application/vnd.code.notebook.error''"
  shows "renderError h p e s
           = Return (s\<lparr>document := update_at (append_child (Element ''div'' [] [] [] [])) e (document s),
                       console := console s @ [SyntaxError]\<rparr>)
    \<and> renderOutputItem h p e s = renderError h p e s
    \<and> node_at (document (world_of (renderError h p e s))) e
         = map_option (append_child (Element ''div'' [] [] [] [])) (node_at (document s) e)"
  using assms
  by (simp add: renderError_def renderOutputItem_def appendChild_def createElement_def
      node_at_update_at)

theorem renderError_undecodable_witness:
  "JSON_parse sample_host (text_of (sample_item ''o1'' ''application/vnd.code.notebook.error'' ''not json''))
     = ParseError
   \<and> renderOutputItem sample_host
        (sample_item ''o1'' ''application/vnd.code.notebook.error'' ''not json'') [0, 0] sample_world
     = Return
         \<lparr>document =
            Element ''div'' [] [''cell''] []
              [Element ''div'' [] [''output''] [] [Element ''div'' [] [] [] [Element ''div'' [] [] [] []]],
               Element ''div'' [] [''output''] [] [Element ''div'' [] [] [] []]],
          isTrusted = False, console = [SyntaxError], object_urls = [], revoked = [],
          scripts_inserted = [], disposables = []\<rparr>"
proof -
  have n: "JSON_parse sample_host
             (text_of (sample_item ''o1'' ''application/vnd.code.notebook.error'' ''not json''))
           = ParseError"
    by (simp add: sample_host_def sample_JSON_parse_def sample_item_def)
  have m: "mime (sample_item ''o1'' ''application/vnd.code.notebook.error'' ''not json'')
             = ''application/vnd.code.notebook.error''"
    by (simp add: sample_item_def)
  show ?thesis
    using n renderError_undecodable [OF n m, of "[0, 0]" sample_world]
    by (simp add: sample_world_def)
qed

lemma renderError_null:
  "JSON_parse h (text_of p) = ParsedNull \<Longrightarrow>
   renderError h p e s = Throw TypeError (appendChild e (Element ''div'' [] [] [] []) s)"
  by (simp add: renderError_def createElement_def)

text \<open>
  C7 as the specification states it fails: the decoded record below has a stack field, the
  empty string, and \<^verbatim>\<open>renderError\<close> appends no traceback block but a header made of the
  name. The surface at \<open>[0, 0]\<close> had no child before.
\<close>

theorem renderError_empty_stack_counterexample:
  \<open>JSON_parse sample_host ''{"stack":"","name":"E"}''
     = Parsed \<lparr>name = Some ''E'', message = None, stack = Some ''''\<rparr>
   \<and> node_at (document (world_of (renderError sample_host
         (sample_item ''o1'' ''application/vnd.code.notebook.error'' ''{"stack":"","name":"E"}'')
         [0, 0] sample_world))) [0, 0]
     = Some (Element ''div'' [] [''error''] []
               [Element ''div'' [] [] [] [], Element ''div'' [] [] [] [Text ''E'']])\<close>
  by (simp add: renderError_def sample_host_def sample_JSON_parse_def sample_item_def
      sample_world_def appendChild_def createElement_def update_element_def headerMessage_def
      set_innerText_def)

text \<open>
  C7, amended. For a structured-error payload that decodes to a record whose fields are
  strings or absent, \<^verbatim>\<open>renderError\<close> returns, and the surface, an element, gets the empty
  \<^verbatim>\<open>div\<close> and then: when the stack field is a string that is not empty, a \<^verbatim>\<open>pre\<close> block of
  class \<^verbatim>\<open>traceback\<close> holding the ANSI-formatted stack, whatever name and message are;
  otherwise, when the header message is not empty, a \<^verbatim>\<open>div\<close> with the header message as its
  text, and nothing when it is empty. The header message is \<^verbatim>\<open>name: message\<close> when both are
  non-empty strings, the name when only the name is, and the message field otherwise. In
  each case the surface carries the class \<^verbatim>\<open>error\<close> afterwards, and nothing is logged.
\<close>

theorem renderError_decoded:
  assumes "JSON_parse h (text_of p) = Parsed err"
    and "node_at (document s) e = Some (Element t a c st ks)"
  shows "renderError h p e s = Return (world_of (renderError h p e s))
    \<and> node_at (document (world_of (renderError h p e s))) e
           = Some (Element t a (if ''error'' \<in> set c then c else c @ [''error'']) st
               (ks @ [Element ''div'' [] [] [] []]
                   @ (if truthy_str (stack err) then
                        [Element ''pre'' [] [''traceback''] [(''margin'', ''8px 0'')]
                           [handleANSIOutput h (template_str (stack err))]]
                      else if truthy_str (headerMessage err) then
                        [Element ''div'' [] [] []
                           (rendered_text_fragment [] (template_str (headerMessage err)))]
                      else [])))
    \<and> console (world_of (renderError h p e s)) = console s
    \<and> (\<forall>n m. name err = Some n \<and> n \<noteq> [] \<and> message err = Some m \<and> m \<noteq> []
          \<longrightarrow> headerMessage err = Some (n @ '': '' @ m))
    \<and> (\<forall>n. name err = Some n \<and> n \<noteq> [] \<and> \<not> truthy_str (message err)
          \<longrightarrow> headerMessage err = Some n)
    \<and> (\<not> truthy_str (name err) \<longrightarrow> headerMessage err = message err)"
proof -
  have ret: "renderError h p e s = Return (world_of (renderError h p e s))"
    using assms(1) by (simp add: renderError_def Let_def)
  have tree: "node_at (document (world_of (renderError h p e s))) e
           = Some (Element t a (if ''error'' \<in> set c then c else c @ [''error'']) st
               (ks @ [Element ''div'' [] [] [] []]
                   @ (if truthy_str (stack err) then
                        [Element ''pre'' [] [''traceback''] [(''margin'', ''8px 0'')]
                           [handleANSIOutput h (template_str (stack err))]]
                      else if truthy_str (headerMessage err) then
                        [Element ''div'' [] [] []
                           (rendered_text_fragment [] (template_str (headerMessage err)))]
                      else [])))"
    using assms
    by (simp add: renderError_def appendChild_def update_element_def createElement_def
        set_innerText_def update_at_comp node_at_update_at)
  have log: "console (world_of (renderError h p e s)) = console s"
    using assms(1) by (simp add: renderError_def appendChild_def update_element_def Let_def)
  have hdr: "(\<forall>n m. name err = Some n \<and> n \<noteq> [] \<and> message err = Some m \<and> m \<noteq> []
          \<longrightarrow> headerMessage err = Some (n @ '': '' @ m))
    \<and> (\<forall>n. name err = Some n \<and> n \<noteq> [] \<and> \<not> truthy_str (message err)
          \<longrightarrow> headerMessage err = Some n)
    \<and> (\<not> truthy_str (name err) \<longrightarrow> headerMessage err = message err)"
    by (auto simp: headerMessage_def)
  from ret tree log hdr show ?thesis by blast
qed

theorem renderError_decoded_witness:
  \<open>JSON_parse sample_host
      (text_of (sample_item ''o1'' ''application/vnd.code.notebook.error''
         ''{"name":"TypeError","message":"x is undefined"}''))
     = Parsed \<lparr>name = Some ''TypeError'', message = Some ''x is undefined'', stack = None\<rparr>
   \<and> JSON_parse sample_host
      (text_of (sample_item ''o1'' ''application/vnd.code.notebook.error''
         ''{"stack":"at f (a.js:1)","name":"E"}''))
     = Parsed \<lparr>name = Some ''E'', message = None, stack = Some ''at f (a.js:1)''\<rparr>
   \<and> node_at (document sample_world) [0, 0] = Some (Element ''div'' [] [] [] [])
   \<and> node_at (document (world_of (renderError sample_host
         (sample_item ''o1'' ''application/vnd.code.notebook.error''
            ''{"name":"TypeError","message":"x is undefined"}'') [0, 0] sample_world))) [0, 0]
     = Some (Element ''div'' [] [''error''] []
               [Element ''div'' [] [] [] [],
                Element ''div'' [] [] [] [Text ''TypeError: x is undefined'']])
   \<and> node_at (document (world_of (renderError sample_host
         (sample_item ''o1'' ''application/vnd.code.notebook.error''
            ''{"stack":"at f (a.js:1)","name":"E"}'') [0, 0] sample_world))) [0, 0]
     = Some (Element ''div'' [] [''error''] []
               [Element ''div'' [] [] [] [],
                Element ''pre'' [] [''traceback''] [(''margin'', ''8px 0'')]
                  [Element ''span'' [] [] [] [Text ''at f (a.js:1)'']]])\<close>
proof -
  have d: \<open>JSON_parse sample_host
      (text_of (sample_item ''o1'' ''application/vnd.code.notebook.error''
         ''{"name":"TypeError","message":"x is undefined"}''))
     = Parsed \<lparr>name = Some ''TypeError'', message = Some ''x is undefined'', stack = None\<rparr>\<close>
    by (simp add: sample_host_def sample_JSON_parse_def sample_item_def)
  have d': \<open>JSON_parse sample_host
      (text_of (sample_item ''o1'' ''application/vnd.code.notebook.error''
         ''{"stack":"at f (a.js:1)","name":"E"}''))
     = Parsed \<lparr>name = Some ''E'', message = None, stack = Some ''at f (a.js:1)''\<rparr>\<close>
    by (simp add: sample_host_def sample_JSON_parse_def sample_item_def)
  have e: "node_at (document sample_world) [0, 0] = Some (Element ''div'' [] [] [] [])"
    by (simp add: sample_world_def)
  show ?thesis
    using d d' e renderError_decoded [OF d e, THEN conjunct2, THEN conjunct1]
      renderError_decoded [OF d' e, THEN conjunct2, THEN conjunct1]
    by (simp add: headerMessage_def sample_host_def)
qed

subsection \<open>Script revival\<close>




















subsection \<open>Stream coalescing\<close>

lemma node_at_update_other:
  "i \<noteq> j \<Longrightarrow> node_at (update_at f (q @ i # r) d) (q @ j # r') = node_at d (q @ j # r')"
proof (induction q arbitrary: d)
  case Nil
  then show ?case by (cases d) simp_all
next
  case (Cons k q)
  then show ?case by (cases d) simp_all
qed

lemma node_at_update_below:
  "node_at (update_at f (q @ r) d) q = map_option (update_at f r) (node_at d q)"
proof (induction q arbitrary: d)
  case Nil
  then show ?case by simp
next
  case (Cons k q)
  then show ?case by (cases d) simp_all
qed

lemma parent_of: "parentElement (cell @ [i, j]) = Some (cell @ [i])"
  by (simp add: parentElement_def butlast_append)

lemma previous_of: "previousSibling (cell @ [Suc i]) = Some (cell @ [i])"
  by (simp add: previousSibling_def)

lemma previous_of_first: "previousSibling (cell @ [0]) = None"
  by (simp add: previousSibling_def)

lemma marker_lower: "ascii_lower ''output-mime-type'' = ''output-mime-type''"
  by (simp add: ascii_lower_def lower_char_def)

lemma stream_block_document:
  "document (stream_block h p q err s)
     = update_at
         ((if err then classList_add ''error'' else id)
            \<circ> setAttribute ''output-mime-type'' (mime p)
            \<circ> append_child (truncatedArrayOfString h [text_of p] 30
                              (Element ''span'' [] [''output-stream''] [] [])))
         q (document s)"
  by (simp add: stream_block_def appendChild_def update_element_def createElement_def
      update_at_comp comp_assoc)

text \<open>The previous sibling's one child carries the payload's mime: the text goes there.\<close>

lemma stream_same:
  assumes "node_at (document s) (cell @ [i]) = Some (Element t a c st [child])"
    and "getAttribute ''output-mime-type'' child = Some (mime p)"
  shows "renderStream h p (cell @ [Suc i, j]) err s
          = Return (s\<lparr>document :=
                       update_at
                         (append_child (truncatedArrayOfString h [text_of p] 30
                                          (Element ''span'' [] [] [] [])))
                         (cell @ [i, 0]) (document s)\<rparr>)
        \<and> node_at (document (world_of (renderStream h p (cell @ [Suc i, j]) err s))) (cell @ [Suc i, j])
            = node_at (document s) (cell @ [Suc i, j])
        \<and> node_at (document (world_of (renderStream h p (cell @ [Suc i, j]) err s))) (cell @ [i, 0])
            = Some (append_child (truncatedArrayOfString h [text_of p] 30
                                    (Element ''span'' [] [] [] [])) child)"
proof -
  obtain t1 a1 c1 st1 ks1 where child: "child = Element t1 a1 c1 st1 ks1"
    using assms(2) by (cases child) auto
  have first: "node_at (document s) (cell @ [i, 0]) = Some child"
    using assms(1) node_at_append [of "document s" "cell @ [i]" "[0]"] by simp
  have fc: "firstChild (document s) (cell @ [i]) = Some (cell @ [i, 0])"
    using assms(1) by (simp add: firstChild_def)
  have run: "renderStream h p (cell @ [Suc i, j]) err s
          = Return (s\<lparr>document :=
                       update_at
                         (append_child (truncatedArrayOfString h [text_of p] 30
                                          (Element ''span'' [] [] [] [])))
                         (cell @ [i, 0]) (document s)\<rparr>)"
    using assms first fc child
    by (simp add: renderStream_def stream_continue_def appendChild_def createElement_def
        parent_of previous_of)
  have surface: "node_at (document (world_of (renderStream h p (cell @ [Suc i, j]) err s)))
                   (cell @ [Suc i, j])
                 = node_at (document s) (cell @ [Suc i, j])"
    using node_at_update_other [of i "Suc i" _ cell "[0]" "document s" "[j]"]
    by (simp add: run)
  have block: "node_at (document (world_of (renderStream h p (cell @ [Suc i, j]) err s)))
                 (cell @ [i, 0])
               = Some (append_child (truncatedArrayOfString h [text_of p] 30
                                       (Element ''span'' [] [] [] [])) child)"
    using first by (simp add: run node_at_update_at)
  from run surface block show ?thesis by blast
qed

text \<open>The previous sibling's first child carries another mime or none: a new block.\<close>

lemma stream_other:
  assumes "node_at (document s) (cell @ [i]) = Some (Element t a c st (Element t1 a1 c1 st1 ks1 # rest))"
    and "getAttribute ''output-mime-type'' (Element t1 a1 c1 st1 ks1) \<noteq> Some (mime p)"
    and "node_at (document s) (cell @ [Suc i, j]) = Some (Element t2 a2 c2 st2 ks2)"
  shows "renderStream h p (cell @ [Suc i, j]) err s
          = Return (stream_block h p (cell @ [Suc i, j]) err s)
        \<and> node_at (document (world_of (renderStream h p (cell @ [Suc i, j]) err s))) (cell @ [Suc i, j])
            = Some (Element t2 (map_set ''output-mime-type'' (mime p) a2)
                      (if err \<and> ''error'' \<notin> set c2 then c2 @ [''error''] else c2) st2
                      (ks2 @ [truncatedArrayOfString h [text_of p] 30
                                (Element ''span'' [] [''output-stream''] [] [])]))
        \<and> node_at (document (world_of (renderStream h p (cell @ [Suc i, j]) err s))) (cell @ [i])
            = node_at (document s) (cell @ [i])"
proof -
  have first: "node_at (document s) (cell @ [i, 0]) = Some (Element t1 a1 c1 st1 ks1)"
    using assms(1) node_at_append [of "document s" "cell @ [i]" "[0]"] by simp
  have fc: "firstChild (document s) (cell @ [i]) = Some (cell @ [i, 0])"
    using assms(1) by (simp add: firstChild_def)
  have run: "renderStream h p (cell @ [Suc i, j]) err s
          = Return (stream_block h p (cell @ [Suc i, j]) err s)"
    using assms(2) first fc
    by (simp add: renderStream_def parent_of previous_of)
  have surface: "node_at (document (world_of (renderStream h p (cell @ [Suc i, j]) err s)))
                   (cell @ [Suc i, j])
            = Some (Element t2 (map_set ''output-mime-type'' (mime p) a2)
                      (if err \<and> ''error'' \<notin> set c2 then c2 @ [''error''] else c2) st2
                      (ks2 @ [truncatedArrayOfString h [text_of p] 30
                                (Element ''span'' [] [''output-stream''] [] [])]))"
    using assms(3) by (simp add: run stream_block_document node_at_update_at marker_lower)
  have prev: "node_at (document (world_of (renderStream h p (cell @ [Suc i, j]) err s))) (cell @ [i])
            = node_at (document s) (cell @ [i])"
    using node_at_update_other [of "Suc i" i _ cell "[j]" "document s" "[]"]
    by (simp add: run stream_block_document)
  from run surface prev show ?thesis by blast
qed

text \<open>The first output container of a cell has no previous sibling: a new block.\<close>

lemma stream_first:
  assumes "node_at (document s) (cell @ [0]) = Some (Element t a c st (Element t1 a1 c1 st1 ks1 # rest))"
  shows "renderStream h p (cell @ [0, 0]) err s = Return (stream_block h p (cell @ [0, 0]) err s)
        \<and> node_at (document (stream_block h p (cell @ [0, 0]) err s)) (cell @ [0])
            = Some (Element t a c st
                     (Element t1 (map_set ''output-mime-type'' (mime p) a1)
                        (if err \<and> ''error'' \<notin> set c1 then c1 @ [''error''] else c1) st1
                        (ks1 @ [truncatedArrayOfString h [text_of p] 30
                                  (Element ''span'' [] [''output-stream''] [] [])]) # rest))
        \<and> node_at (document (stream_block h p (cell @ [0, 0]) err s)) (cell @ [Suc 0, j])
            = node_at (document s) (cell @ [Suc 0, j])"
proof -
  have run: "renderStream h p (cell @ [0, 0]) err s = Return (stream_block h p (cell @ [0, 0]) err s)"
    by (simp add: renderStream_def parent_of previous_of_first)
  have container: "node_at (document (stream_block h p (cell @ [0, 0]) err s)) (cell @ [0])
            = Some (Element t a c st
                     (Element t1 (map_set ''output-mime-type'' (mime p) a1)
                        (if err \<and> ''error'' \<notin> set c1 then c1 @ [''error''] else c1) st1
                        (ks1 @ [truncatedArrayOfString h [text_of p] 30
                                  (Element ''span'' [] [''output-stream''] [] [])]) # rest))"
    using assms node_at_update_below [of _ "cell @ [0]" "[0]" "document s"]
    by (simp add: stream_block_document marker_lower)
  have next_slot: "node_at (document (stream_block h p (cell @ [0, 0]) err s)) (cell @ [Suc 0, j])
            = node_at (document s) (cell @ [Suc 0, j])"
    using node_at_update_other [of 0 "Suc 0" _ cell "[0]" "document s" "[j]"]
    by (simp add: stream_block_document)
  from run container next_slot show ?thesis by blast
qed

text \<open>
  C5. The surface is the \<open>j\<close>-th child of the output container \<open>cell @ [Suc i]\<close>, whose
  previous sibling is \<open>cell @ [i]\<close>. When that sibling has exactly one child and the child's
  \<^verbatim>\<open>output-mime-type\<close> attribute is the payload's mime, \<^verbatim>\<open>renderStream\<close> appends a span with
  the truncation-formatted text to that child and leaves the surface as it was. When the
  sibling's first child is an element whose marker is another mime or absent (an output
  that is not a stream has none), a span of class \<^verbatim>\<open>output-stream\<close> with the formatted text
  is appended to the surface, and the surface is tagged with the payload's mime, and marked
  as an error block for an error stream. And two stream payloads of one mime, rendered back
  to back into the one surface of a cell's first output container and into a surface of the
  next container: the first render makes a block in its surface, the second appends its
  span to that block and leaves its own surface as it was.
\<close>

theorem stream_coalescing:
  "(node_at (document s) (cell @ [i]) = Some (Element t a c st [child])
      \<and> getAttribute ''output-mime-type'' child = Some (mime p)
    \<longrightarrow> renderStream h p (cell @ [Suc i, j]) err s
          = Return (s\<lparr>document :=
                       update_at
                         (append_child (truncatedArrayOfString h [text_of p] 30
                                          (Element ''span'' [] [] [] [])))
                         (cell @ [i, 0]) (document s)\<rparr>)
        \<and> node_at (document (world_of (renderStream h p (cell @ [Suc i, j]) err s))) (cell @ [Suc i, j])
            = node_at (document s) (cell @ [Suc i, j])
        \<and> node_at (document (world_of (renderStream h p (cell @ [Suc i, j]) err s))) (cell @ [i, 0])
            = Some (append_child (truncatedArrayOfString h [text_of p] 30
                                    (Element ''span'' [] [] [] [])) child))
   \<and> (node_at (document s) (cell @ [i]) = Some (Element t a c st (Element t1 a1 c1 st1 ks1 # rest))
      \<and> getAttribute ''output-mime-type'' (Element t1 a1 c1 st1 ks1) \<noteq> Some (mime p)
      \<and> node_at (document s) (cell @ [Suc i, j]) = Some (Element t2 a2 c2 st2 ks2)
    \<longrightarrow> renderStream h p (cell @ [Suc i, j]) err s
          = Return (stream_block h p (cell @ [Suc i, j]) err s)
        \<and> node_at (document (world_of (renderStream h p (cell @ [Suc i, j]) err s))) (cell @ [Suc i, j])
            = Some (Element t2 (map_set ''output-mime-type'' (mime p) a2)
                      (if err \<and> ''error'' \<notin> set c2 then c2 @ [''error''] else c2) st2
                      (ks2 @ [truncatedArrayOfString h [text_of p] 30
                                (Element ''span'' [] [''output-stream''] [] [])]))
        \<and> node_at (document (world_of (renderStream h p (cell @ [Suc i, j]) err s))) (cell @ [i])
            = node_at (document s) (cell @ [i]))
   \<and> (node_at (document s) (cell @ [0]) = Some (Element t a c st [Element t1 a1 c1 st1 ks1])
      \<and> mime p' = mime p
    \<longrightarrow> renderStream h p (cell @ [0, 0]) err s = Return (stream_block h p (cell @ [0, 0]) err s)
        \<and> node_at (document (world_of (renderStream h p' (cell @ [Suc 0, j]) err'
                     (stream_block h p (cell @ [0, 0]) err s)))) (cell @ [0, 0])
            = Some (Element t1 (map_set ''output-mime-type'' (mime p) a1)
                      (if err \<and> ''error'' \<notin> set c1 then c1 @ [''error''] else c1) st1
                      (ks1 @ [truncatedArrayOfString h [text_of p] 30
                                (Element ''span'' [] [''output-stream''] [] []),
                              truncatedArrayOfString h [text_of p'] 30
                                (Element ''span'' [] [] [] [])]))
        \<and> node_at (document (world_of (renderStream h p' (cell @ [Suc 0, j]) err'
                     (stream_block h p (cell @ [0, 0]) err s)))) (cell @ [Suc 0, j])
            = node_at (document s) (cell @ [Suc 0, j]))"
proof (intro conjI impI)
  assume "node_at (document s) (cell @ [i]) = Some (Element t a c st [child])
      \<and> getAttribute ''output-mime-type'' child = Some (mime p)"
  then have A: "node_at (document s) (cell @ [i]) = Some (Element t a c st [child])"
    and B: "getAttribute ''output-mime-type'' child = Some (mime p)" by simp_all
  note same = stream_same [OF A B, of h j err]
  from same show "renderStream h p (cell @ [Suc i, j]) err s
          = Return (s\<lparr>document :=
                       update_at
                         (append_child (truncatedArrayOfString h [text_of p] 30
                                          (Element ''span'' [] [] [] [])))
                         (cell @ [i, 0]) (document s)\<rparr>)" by blast
  from same show "node_at (document (world_of (renderStream h p (cell @ [Suc i, j]) err s)))
            (cell @ [Suc i, j]) = node_at (document s) (cell @ [Suc i, j])" by blast
  from same show "node_at (document (world_of (renderStream h p (cell @ [Suc i, j]) err s)))
            (cell @ [i, 0])
            = Some (append_child (truncatedArrayOfString h [text_of p] 30
                                    (Element ''span'' [] [] [] [])) child)" by blast
next
  assume "node_at (document s) (cell @ [i]) = Some (Element t a c st (Element t1 a1 c1 st1 ks1 # rest))
      \<and> getAttribute ''output-mime-type'' (Element t1 a1 c1 st1 ks1) \<noteq> Some (mime p)
      \<and> node_at (document s) (cell @ [Suc i, j]) = Some (Element t2 a2 c2 st2 ks2)"
  then have A: "node_at (document s) (cell @ [i]) = Some (Element t a c st (Element t1 a1 c1 st1 ks1 # rest))"
    and B: "getAttribute ''output-mime-type'' (Element t1 a1 c1 st1 ks1) \<noteq> Some (mime p)"
    and C: "node_at (document s) (cell @ [Suc i, j]) = Some (Element t2 a2 c2 st2 ks2)"
    by simp_all
  note other = stream_other [OF A B C, of h err]
  from other show "renderStream h p (cell @ [Suc i, j]) err s
          = Return (stream_block h p (cell @ [Suc i, j]) err s)" by blast
  from other show "node_at (document (world_of (renderStream h p (cell @ [Suc i, j]) err s)))
            (cell @ [Suc i, j])
            = Some (Element t2 (map_set ''output-mime-type'' (mime p) a2)
                      (if err \<and> ''error'' \<notin> set c2 then c2 @ [''error''] else c2) st2
                      (ks2 @ [truncatedArrayOfString h [text_of p] 30
                                (Element ''span'' [] [''output-stream''] [] [])]))" by blast
  from other show "node_at (document (world_of (renderStream h p (cell @ [Suc i, j]) err s)))
            (cell @ [i]) = node_at (document s) (cell @ [i])" by blast
next
  assume "node_at (document s) (cell @ [0]) = Some (Element t a c st [Element t1 a1 c1 st1 ks1])
      \<and> mime p' = mime p"
  then have A: "node_at (document s) (cell @ [0]) = Some (Element t a c st [Element t1 a1 c1 st1 ks1])"
    and M: "mime p' = mime p" by simp_all
  let ?s1 = "stream_block h p (cell @ [0, 0]) err s"
  let ?block = "Element t1 (map_set ''output-mime-type'' (mime p) a1)
                  (if err \<and> ''error'' \<notin> set c1 then c1 @ [''error''] else c1) st1
                  (ks1 @ [truncatedArrayOfString h [text_of p] 30
                            (Element ''span'' [] [''output-stream''] [] [])])"
  note first = stream_first [OF A, of h p err j]
  from first show "renderStream h p (cell @ [0, 0]) err s = Return ?s1" by blast
  from first have container: "node_at (document ?s1) (cell @ [0]) = Some (Element t a c st [?block])"
    and slot: "node_at (document ?s1) (cell @ [Suc 0, j]) = node_at (document s) (cell @ [Suc 0, j])"
    by blast+
  have marker: "getAttribute ''output-mime-type'' ?block = Some (mime p')"
    using M by (simp add: marker_lower map_get_map_set)
  note second = stream_same [OF container marker, of h j err']
  from second [THEN conjunct2, THEN conjunct2] show "node_at (document (world_of (renderStream h p' (cell @ [Suc 0, j]) err' ?s1)))
                      (cell @ [0, 0])
            = Some (Element t1 (map_set ''output-mime-type'' (mime p) a1)
                      (if err \<and> ''error'' \<notin> set c1 then c1 @ [''error''] else c1) st1
                      (ks1 @ [truncatedArrayOfString h [text_of p] 30
                                (Element ''span'' [] [''output-stream''] [] []),
                              truncatedArrayOfString h [text_of p'] 30
                                (Element ''span'' [] [] [] [])]))"
    by simp
  from second [THEN conjunct2, THEN conjunct1] slot show "node_at (document (world_of (renderStream h p' (cell @ [Suc 0, j]) err' ?s1)))
                      (cell @ [Suc 0, j]) = node_at (document s) (cell @ [Suc 0, j])"
    by simp
qed

theorem stream_coalescing_witness:
  "renderStream sample_host (sample_item ''o1'' ''application/vnd.code.notebook.stdout'' ''hello'')
       [0, 0] False sample_world
     = Return (sample_world\<lparr>document :=
         Element ''div'' [] [''cell''] []
           [Element ''div'' [] [''output''] []
              [Element ''div'' [(''output-mime-type'', ''application/vnd.code.notebook.stdout'')] [] []
                 [Element ''span'' [] [''output-stream''] [] [Element ''span'' [] [] [] [Text ''hello'']]]],
            Element ''div'' [] [''output''] [] [Element ''div'' [] [] [] []]]\<rparr>)
   \<and> node_at (document (world_of (renderStream sample_host
          (sample_item ''o2'' ''application/vnd.code.notebook.stdout'' ''world'') [1, 0] False
          (sample_world\<lparr>document :=
             Element ''div'' [] [''cell''] []
               [Element ''div'' [] [''output''] []
                  [Element ''div'' [(''output-mime-type'', ''application/vnd.code.notebook.stdout'')] [] []
                     [Element ''span'' [] [''output-stream''] []
                        [Element ''span'' [] [] [] [Text ''hello'']]]],
                Element ''div'' [] [''output''] [] [Element ''div'' [] [] [] []]]\<rparr>)))) [0, 0]
     = Some (Element ''div'' [(''output-mime-type'', ''application/vnd.code.notebook.stdout'')] [] []
               [Element ''span'' [] [''output-stream''] [] [Element ''span'' [] [] [] [Text ''hello'']],
                Element ''span'' [] [] [] [Element ''span'' [] [] [] [Text ''world'']]])
   \<and> node_at (document (world_of (renderStream sample_host
          (sample_item ''o2'' ''application/vnd.code.notebook.stdout'' ''world'') [1, 0] False
          (sample_world\<lparr>document :=
             Element ''div'' [] [''cell''] []
               [Element ''div'' [] [''output''] []
                  [Element ''div'' [(''output-mime-type'', ''application/vnd.code.notebook.stdout'')] [] []
                     [Element ''span'' [] [''output-stream''] []
                        [Element ''span'' [] [] [] [Text ''hello'']]]],
                Element ''div'' [] [''output''] [] [Element ''div'' [] [] [] []]]\<rparr>)))) [1, 0]
     = Some (Element ''div'' [] [] [] [])
   \<and> node_at (document (world_of (renderStream sample_host
          (sample_item ''o2'' ''application/vnd.code.notebook.stderr'' ''oops'') [1, 0] True
          (sample_world\<lparr>document :=
             Element ''div'' [] [''cell''] []
               [Element ''div'' [] [''output''] []
                  [Element ''div'' [(''output-mime-type'', ''application/vnd.code.notebook.stdout'')] [] []
                     [Element ''span'' [] [''output-stream''] []
                        [Element ''span'' [] [] [] [Text ''hello'']]]],
                Element ''div'' [] [''output''] [] [Element ''div'' [] [] [] []]]\<rparr>)))) [1, 0]
     = Some (Element ''div'' [(''output-mime-type'', ''application/vnd.code.notebook.stderr'')]
               [''error''] []
               [Element ''span'' [] [''output-stream''] [] [Element ''span'' [] [] [] [Text ''oops'']]])
   \<and> node_at (document (world_of (renderStream sample_host
          (sample_item ''o2'' ''application/vnd.code.notebook.stdout'' ''world'') [1, 0] False
          (stream_block sample_host
             (sample_item ''o1'' ''application/vnd.code.notebook.stdout'' ''hello'') [0, 0] False
             sample_world)))) [0, 0]
     = Some (Element ''div'' [(''output-mime-type'', ''application/vnd.code.notebook.stdout'')] [] []
               [Element ''span'' [] [''output-stream''] [] [Element ''span'' [] [] [] [Text ''hello'']],
                Element ''span'' [] [] [] [Element ''span'' [] [] [] [Text ''world'']]])"
proof -
  let ?child = "Element ''div'' [(''output-mime-type'', ''application/vnd.code.notebook.stdout'')] [] []
                  [Element ''span'' [] [''output-stream''] [] [Element ''span'' [] [] [] [Text ''hello'']]]"
  let ?s1 = "sample_world\<lparr>document :=
               Element ''div'' [] [''cell''] []
                 [Element ''div'' [] [''output''] [] [?child],
                  Element ''div'' [] [''output''] [] [Element ''div'' [] [] [] []]]\<rparr>"
  have first: "renderStream sample_host
       (sample_item ''o1'' ''application/vnd.code.notebook.stdout'' ''hello'') [0, 0] False sample_world
     = Return ?s1"
    by (simp add: renderStream_def parentElement_def previousSibling_def stream_block_def
        appendChild_def update_element_def createElement_def sample_host_def sample_item_def
        sample_world_def marker_lower)
  have prev: "node_at (document ?s1) ([] @ [0]) = Some (Element ''div'' [] [''output''] [] [?child])"
    by simp
  have mark: "getAttribute ''output-mime-type'' ?child
                = Some (mime (sample_item ''o2'' ''application/vnd.code.notebook.stdout'' ''world''))"
    by (simp add: marker_lower map_get_def sample_item_def)
  have other: "getAttribute ''output-mime-type'' ?child
                \<noteq> Some (mime (sample_item ''o2'' ''application/vnd.code.notebook.stderr'' ''oops''))"
    by (simp add: marker_lower map_get_def sample_item_def)
  have surf: "node_at (document ?s1) ([] @ [Suc 0, 0]) = Some (Element ''div'' [] [] [] [])"
    by simp
  note same = stream_coalescing [where s = ?s1 and cell = "[]" and i = 0 and j = 0
      and child = ?child and t = "''div''" and a = "[]" and c = "[''output'']" and st = "[]"
      and p = "sample_item ''o2'' ''application/vnd.code.notebook.stdout'' ''world''"
      and h = sample_host and err = False,
      THEN conjunct1, THEN mp, OF conjI [OF prev mark], THEN conjunct2]
  note new = stream_coalescing [where s = ?s1 and cell = "[]" and i = 0 and j = 0
      and t = "''div''" and a = "[]" and c = "[''output'']" and st = "[]"
      and ?t1.0 = "''div''"
      and ?a1.0 = "[(''output-mime-type'', ''application/vnd.code.notebook.stdout'')]"
      and ?c1.0 = "[]" and ?st1.0 = "[]"
      and ?ks1.0 = "[Element ''span'' [] [''output-stream''] [] [Element ''span'' [] [] [] [Text ''hello'']]]"
      and rest = "[]"
      and ?t2.0 = "''div''" and ?a2.0 = "[]" and ?c2.0 = "[]" and ?st2.0 = "[]" and ?ks2.0 = "[]"
      and p = "sample_item ''o2'' ''application/vnd.code.notebook.stderr'' ''oops''"
      and h = sample_host and err = True,
      THEN conjunct2, THEN conjunct1, THEN mp, OF conjI [OF prev conjI [OF other surf]],
      THEN conjunct2, THEN conjunct1]
  have slot: "node_at (document sample_world) ([] @ [0])
                = Some (Element ''div'' [] [''output''] [] [Element ''div'' [] [] [] []])"
    by (simp add: sample_world_def)
  have mimes: "mime (sample_item ''o2'' ''application/vnd.code.notebook.stdout'' ''world'')
                 = mime (sample_item ''o1'' ''application/vnd.code.notebook.stdout'' ''hello'')"
    by (simp add: sample_item_def)
  note both = stream_coalescing [where s = sample_world and cell = "[]" and j = 0
      and t = "''div''" and a = "[]" and c = "[''output'']" and st = "[]"
      and ?t1.0 = "''div''" and ?a1.0 = "[]" and ?c1.0 = "[]" and ?st1.0 = "[]" and ?ks1.0 = "[]"
      and p = "sample_item ''o1'' ''application/vnd.code.notebook.stdout'' ''hello''"
      and p' = "sample_item ''o2'' ''application/vnd.code.notebook.stdout'' ''world''"
      and h = sample_host and err = False and err' = False,
      THEN conjunct2, THEN conjunct2, THEN mp, OF conjI [OF slot mimes],
      THEN conjunct2, THEN conjunct1]
  show ?thesis
    using first same new both
    by (simp add: sample_host_def sample_item_def)
qed

end
